theory Spec2Isabelle
  imports Main "HOL-Library.Sublist" "HOL-Library.AList"
begin

section \<open>Python values and strings\<close>

text \<open>
  The backend is Python. A \<open>str\<close> is modelled as a \<open>string\<close>, a list of 8-bit
  characters that stand for the code points U+0000 to U+00FF; \<open>len\<close> is \<open>length\<close>.
  The character classes and case mappings below are those of Python on these 256 code
  points. A string that holds a code point above U+00FF has no counterpart in the model.
  The values that are stored in a session, an order or an action record are JSON
  scalars: \<open>None\<close>, booleans, integers and strings.
\<close>

datatype pyval = PNone | PBool bool | PInt int | PStr string

text \<open>Truthiness, as tested by \<open>if x\<close> and \<open>not x\<close>.\<close>

fun truthy :: "pyval \<Rightarrow> bool" where
  "truthy PNone = False"
| "truthy (PBool b) = b"
| "truthy (PInt i) = (i \<noteq> 0)"
| "truthy (PStr s) = (s \<noteq> [])"

text \<open>
  \<open>str.isspace\<close> on one character. The same characters form the class \<open>\s\<close> of \<open>re\<close>
  and are what \<open>str.strip\<close> removes: tab, LF, VT, FF, CR, FS, GS, RS, US, space, the
  next-line control U+0085 and the no-break space U+00A0.
\<close>

definition py_isspace :: "char \<Rightarrow> bool" where
  "py_isspace c = (c \<in> set [CHR 0x09, CHR 0x0A, CHR 0x0B, CHR 0x0C, CHR 0x0D,
                              CHR 0x1C, CHR 0x1D, CHR 0x1E, CHR 0x1F, CHR '' '',
                              CHR 0x85, CHR 0xA0])"

text \<open>The class \<open>\d\<close> of \<open>re\<close>: below U+0100 the decimal digits are the ten ASCII ones.\<close>

definition py_isdigit :: "char \<Rightarrow> bool" where
  "py_isdigit c = (c \<in> set ''0123456789'')"

text \<open>
  The cased letters below U+0100: \<open>A\<close> to \<open>Z\<close> and U+00C0 to U+00DE without the
  multiplication sign U+00D7, each with its lower-case partner 32 code points above.
\<close>

definition upper_letters :: string where
  "upper_letters = ''ABCDEFGHIJKLMNOPQRSTUVWXYZ'' @
     [CHR 0xC0, CHR 0xC1, CHR 0xC2, CHR 0xC3, CHR 0xC4, CHR 0xC5, CHR 0xC6, CHR 0xC7, CHR 0xC8,
      CHR 0xC9, CHR 0xCA, CHR 0xCB, CHR 0xCC, CHR 0xCD, CHR 0xCE, CHR 0xCF, CHR 0xD0, CHR 0xD1,
      CHR 0xD2, CHR 0xD3, CHR 0xD4, CHR 0xD5, CHR 0xD6, CHR 0xD8, CHR 0xD9, CHR 0xDA, CHR 0xDB,
      CHR 0xDC, CHR 0xDD, CHR 0xDE]"

definition lower_letters :: string where
  "lower_letters = ''abcdefghijklmnopqrstuvwxyz'' @
     [CHR 0xE0, CHR 0xE1, CHR 0xE2, CHR 0xE3, CHR 0xE4, CHR 0xE5, CHR 0xE6, CHR 0xE7, CHR 0xE8,
      CHR 0xE9, CHR 0xEA, CHR 0xEB, CHR 0xEC, CHR 0xED, CHR 0xEE, CHR 0xEF, CHR 0xF0, CHR 0xF1,
      CHR 0xF2, CHR 0xF3, CHR 0xF4, CHR 0xF5, CHR 0xF6, CHR 0xF8, CHR 0xF9, CHR 0xFA, CHR 0xFB,
      CHR 0xFC, CHR 0xFD, CHR 0xFE]"

definition lower_table :: "(char \<times> char) list" where
  "lower_table = zip upper_letters lower_letters"

text \<open>
  \<open>str.upper\<close> turns the sharp s U+00DF into \<open>SS\<close>, so the upper case of one character is
  a string. The micro sign U+00B5 and U+00FF are the two characters whose upper case
  (U+039C and U+0178) lies above U+00FF; it is written here as the character itself,
  which is the upper case of no other character, so that two upper-cased strings are
  equal here exactly when they are equal in Python.
\<close>

definition upper_table :: "(char \<times> string) list" where
  "upper_table = zip lower_letters (map (\<lambda>c. [c]) upper_letters) @ [(CHR 0xDF, ''SS'')]"

definition lower_char :: "char \<Rightarrow> char" where
  "lower_char c = (case map_of lower_table c of Some d \<Rightarrow> d | None \<Rightarrow> c)"

definition upper_char :: "char \<Rightarrow> string" where
  "upper_char c = (case map_of upper_table c of Some d \<Rightarrow> d | None \<Rightarrow> [c])"

text \<open>\<open>s.lower()\<close>, \<open>s.upper()\<close>, \<open>s.strip()\<close>, \<open>s.replace(c, "")\<close> for a one-character \<open>c\<close>.\<close>

definition py_lower :: "string \<Rightarrow> string" where
  "py_lower s = map lower_char s"

definition py_upper :: "string \<Rightarrow> string" where
  "py_upper s = concat (map upper_char s)"

definition py_strip :: "string \<Rightarrow> string" where
  "py_strip s = rev (dropWhile py_isspace (rev (dropWhile py_isspace s)))"

definition remove_char :: "char \<Rightarrow> string \<Rightarrow> string" where
  "remove_char c s = filter (\<lambda>x. x \<noteq> c) s"

text \<open>
  \<open>a in b\<close> on strings is \<^const>\<open>sublist\<close> (a contiguous occurrence),
  \<open>b.startswith(a)\<close> is \<^const>\<open>prefix\<close> and \<open>b.endswith(a)\<close> is \<^const>\<open>suffix\<close>.
\<close>

text \<open>Decimal rendering of a natural number, as \<open>str(n)\<close> does.\<close>

definition digit_char :: "nat \<Rightarrow> char" where
  "digit_char d = ''0123456789'' ! d"

fun dec :: "nat \<Rightarrow> string" where
  "dec n = (if n < 10 then [digit_char n] else dec (n div 10) @ [digit_char (n mod 10)])"

declare dec.simps [simp del]

text \<open>What an f-string prints for a value: \<open>str(x)\<close>.\<close>

fun py_str :: "pyval \<Rightarrow> string" where
  "py_str PNone = ''None''"
| "py_str (PBool b) = (if b then ''True'' else ''False'')"
| "py_str (PInt i) = (if i < 0 then CHR ''-'' # dec (nat (- i)) else dec (nat i))"
| "py_str (PStr s) = s"

text \<open>
  A \<open>dict\<close> with string keys is an association list in insertion order with unique keys:
  \<open>d.get(k)\<close>, \<open>d.get(k, default)\<close>, \<open>d[k] = v\<close>. An empty dict is falsy.
\<close>

type_synonym pydict = "(string \<times> pyval) list"

definition dict_get :: "pydict \<Rightarrow> string \<Rightarrow> pyval" where
  "dict_get d k = (case map_of d k of None \<Rightarrow> PNone | Some v \<Rightarrow> v)"

definition dict_get_default :: "pydict \<Rightarrow> string \<Rightarrow> pyval \<Rightarrow> pyval" where
  "dict_get_default d k dflt = (case map_of d k of None \<Rightarrow> dflt | Some v \<Rightarrow> v)"

definition dict_set :: "pydict \<Rightarrow> string \<Rightarrow> pyval \<Rightarrow> pydict" where
  "dict_set d k v = AList.update k v d"

section \<open>The environment of one request\<close>

text \<open>
  Everything the backend reads from outside the process is a field of the environment:
  the clock (\<open>datetime.now()\<close> in its three renderings), the random session suffix
  (\<open>uuid.uuid4().hex[:12]\<close>), the order file as \<open>load_orders\<close> returns it, the
  knowledge search of \<open>rag.py\<close>, whether the data directory can be written, and
  the language model. \<open>model_ready\<close> is \<open>model is not None\<close>. Each use of
  \<open>model.generate_content(prompt).text\<close> is a function of the values interpolated
  into that agent's prompt, and yields \<open>None\<close> when the call raises.
\<close>

record env =
  iso_now :: string
  date_str :: string
  now_str :: string
  uuid_hex :: string
  orders_json :: "pydict list"
  search_knowledge :: "string \<Rightarrow> string list"
  disk_writable :: bool
  model_ready :: bool
  llm_intent :: "string \<Rightarrow> string option"
  llm_respond :: "string \<Rightarrow> string \<Rightarrow> string \<Rightarrow> string option"
  llm_verify :: "string \<Rightarrow> string \<Rightarrow> string option"
  llm_confirm :: "string \<Rightarrow> string option"

section \<open>session_manager.py\<close>

text \<open>
  A session is the dict that \<open>create_session\<close> builds. Its \<open>conversation_history\<close>
  entry, the only list-valued one, is kept apart from the scalar entries. The global
  \<open>SESSION_STATE\<close> maps session ids to sessions; every function below takes the store
  and returns the updated one.
\<close>

record history_entry =
  role :: string
  message :: string
  timestamp :: string

record session =
  slots :: pydict
  conversation_history :: "history_entry list"

type_synonym store = "string \<rightharpoonup> session"

definition new_session :: "env \<Rightarrow> string \<Rightarrow> session" where
  "new_session e sid = \<lparr>
     slots = [
       (''session_id'', PStr sid),
       (''created_at'', PStr (iso_now e)),
       (''order_id'', PNone),
       (''customer_name'', PNone),
       (''customer_email'', PNone),
       (''customer_phone'', PNone),
       (''product_id'', PNone),
       (''product_name'', PNone),
       (''model_number'', PNone),
       (''serial_number'', PNone),
       (''purchase_date'', PNone),
       (''warranty_years'', PNone),
       (''issue_description'', PNone),
       (''reason_for_action'', PNone),
       (''purchase_date_confirmed'', PNone),
       (''preferred_datetime'', PNone),
       (''additional_details'', PNone),
       (''required_info_collected'', PBool False),
       (''conversation_state'', PStr ''collecting_info''),
       (''action_id'', PNone),
       (''action_type'', PNone)],
     conversation_history = [] \<rparr>"

definition create_session :: "env \<Rightarrow> store \<Rightarrow> string \<Rightarrow> store" where
  "create_session e st sid =
     (case st sid of Some s \<Rightarrow> st | None \<Rightarrow> st(sid \<mapsto> new_session e sid))"

text \<open>\<open>get_session\<close> returns the session object itself and creates it when absent.\<close>

definition get_session :: "env \<Rightarrow> store \<Rightarrow> string \<Rightarrow> session \<times> store" where
  "get_session e st sid =
     (case st sid of
        None \<Rightarrow> (new_session e sid, create_session e st sid)
      | Some s \<Rightarrow> (s, st))"

definition update_session :: "env \<Rightarrow> store \<Rightarrow> string \<Rightarrow> string \<Rightarrow> pyval \<Rightarrow> store" where
  "update_session e st sid k v =
     (let st1 = (case st sid of None \<Rightarrow> create_session e st sid | Some s \<Rightarrow> st) in
      case st1 sid of
        None \<Rightarrow> st1
      | Some s \<Rightarrow> st1(sid \<mapsto> s\<lparr>slots := dict_set (slots s) k v\<rparr>))"

text \<open>The loop \<open>for key, value in data.items()\<close> of \<open>update_session_bulk\<close>.\<close>

fun set_items :: "pydict \<Rightarrow> (string \<times> pyval) list \<Rightarrow> pydict" where
  "set_items d [] = d"
| "set_items d ((k, v) # kvs) = set_items (dict_set d k v) kvs"

definition update_session_bulk :: "env \<Rightarrow> store \<Rightarrow> string \<Rightarrow> pydict \<Rightarrow> store" where
  "update_session_bulk e st sid data =
     (let st1 = (case st sid of None \<Rightarrow> create_session e st sid | Some s \<Rightarrow> st) in
      case st1 sid of
        None \<Rightarrow> st1
      | Some s \<Rightarrow> st1(sid \<mapsto> s\<lparr>slots := set_items (slots s) data\<rparr>))"

definition add_to_conversation_history ::
    "env \<Rightarrow> store \<Rightarrow> string \<Rightarrow> string \<Rightarrow> string \<Rightarrow> store" where
  "add_to_conversation_history e st sid r m =
     (let st1 = (case st sid of None \<Rightarrow> create_session e st sid | Some s \<Rightarrow> st) in
      case st1 sid of
        None \<Rightarrow> st1
      | Some s \<Rightarrow> st1(sid \<mapsto> s\<lparr>conversation_history :=
                   conversation_history s @ [\<lparr>role = r, message = m, timestamp = iso_now e\<rparr>]\<rparr>))"

text \<open>\<open>"\n".join(parts)\<close> and the bullet list of \<open>get_session_context\<close>.\<close>

fun join :: "string \<Rightarrow> string list \<Rightarrow> string" where
  "join sep [] = []"
| "join sep [x] = x"
| "join sep (x # y # ys) = x @ sep @ join sep (y # ys)"

definition newline :: string where
  "newline = [CHR 0x0A]"

definition context_part :: "session \<Rightarrow> string \<Rightarrow> string \<Rightarrow> string list" where
  "context_part s k label =
     (if truthy (dict_get (slots s) k) then [label @ py_str (dict_get (slots s) k)] else [])"

definition get_session_context :: "env \<Rightarrow> store \<Rightarrow> string \<Rightarrow> string \<times> store" where
  "get_session_context e st sid =
     (case get_session e st sid of (s, st1) \<Rightarrow>
        if slots s = [] then ('''', st1)
        else
          let context_parts =
                context_part s ''order_id'' ''Order ID: '' @
                context_part s ''customer_name'' ''Customer: '' @
                context_part s ''product_name'' ''Product: '' @
                context_part s ''model_number'' ''Model: '' @
                context_part s ''issue_description'' ''Issue: ''
          in if context_parts \<noteq> []
             then (''Known Information:'' @ newline @
                   join newline (map (\<lambda>part. ''- '' @ part) context_parts), st1)
             else ('''', st1))"

definition mark_action_completed :: "store \<Rightarrow> string \<Rightarrow> string \<Rightarrow> string \<Rightarrow> store" where
  "mark_action_completed st sid aid atype =
     (case st sid of
        None \<Rightarrow> st
      | Some s \<Rightarrow> st(sid \<mapsto> s\<lparr>slots :=
          dict_set (dict_set (dict_set (slots s) ''action_id'' (PStr aid))
                      ''action_type'' (PStr atype))
                   ''conversation_state'' (PStr ''action_executed'')\<rparr>))"

text \<open>The dict \<open>{"missing": ..., "complete": ..., "prompt": ...}\<close>.\<close>

record info_status =
  missing :: "string list"
  complete :: bool
  prompt :: string

definition order_id_prompt :: string where
  "order_id_prompt =
     ''To process your request, I'' @ [CHR 0x27] @ ''ll need your **Order ID** (e.g., ORD301).''"

definition refund_reason_prompt :: string where
  "refund_reason_prompt = ''Could you tell me the reason for your refund request?''"

definition replacement_issue_prompt :: string where
  "replacement_issue_prompt = ''What issue are you experiencing with the product?''"

definition service_datetime_prompt :: string where
  "service_datetime_prompt =
     ''When would you prefer the service? Please provide a date and time (e.g., '' @
     [CHR 0x27] @ ''December 24, 2025 at 2:00 PM'' @ [CHR 0x27] @ '').''"

text \<open>
  The body of \<open>check_missing_info_for_action\<close> once the session is at hand: the three
  appends to \<open>missing\<close>, then the prompt chosen by membership in \<open>missing\<close>.
\<close>

definition check_missing :: "session \<Rightarrow> string \<Rightarrow> info_status" where
  "check_missing s action_type =
     (let missing0 = [];
          missing1 = (if \<not> truthy (dict_get (slots s) ''order_id'')
                      then missing0 @ [''order_id''] else missing0);
          missing2 = (if action_type \<in> set [''initiate_refund'', ''initiate_replacement'']
                      then (if \<not> truthy (dict_get (slots s) ''reason_for_action'')
                            then missing1 @ [''reason_for_action''] else missing1)
                      else missing1);
          missing3 = (if action_type = ''book_service''
                      then (if \<not> truthy (dict_get (slots s) ''preferred_datetime'')
                            then missing2 @ [''preferred_datetime''] else missing2)
                      else missing2);
          prompt0 = (if ''order_id'' \<in> set missing3 then order_id_prompt
                     else if ''reason_for_action'' \<in> set missing3
                     then (if action_type = ''initiate_refund'' then refund_reason_prompt
                           else if action_type = ''initiate_replacement''
                           then replacement_issue_prompt
                           else '''')
                     else if ''preferred_datetime'' \<in> set missing3 then service_datetime_prompt
                     else '''')
      in \<lparr>missing = missing3, complete = (length missing3 = 0), prompt = prompt0\<rparr>)"

definition check_missing_info_for_action ::
    "env \<Rightarrow> store \<Rightarrow> string \<Rightarrow> string \<Rightarrow> info_status \<times> store" where
  "check_missing_info_for_action e st sid action_type =
     (case get_session e st sid of (s, st1) \<Rightarrow>
        if slots s = []
        then (\<lparr>missing = [''all''], complete = False,
               prompt = ''Could you please provide your Order ID?''\<rparr>, st1)
        else (check_missing s action_type, st1))"

section \<open>order_lookup.py\<close>

subsection \<open>The regular expressions of \<open>extract_order_id_from_message\<close>\<close>

text \<open>
  The three patterns use character classes, literals under \<open>re.IGNORECASE\<close>, sequencing,
  alternation, the greedy \<open>?\<close>, \<open>*\<close> and \<open>+\<close> (the last two on a character class only)
  and one capturing group each. \<open>rx_match r s\<close> lists, in the order in which a backtracking
  matcher tries them, the ways \<open>r\<close> can match at the start of \<open>s\<close>: the rest of the input
  after the match, and the text of the capturing group if it took part.
\<close>

datatype rx =
    Eps
  | Cls "char \<Rightarrow> bool"
  | Cat rx rx
  | Alt rx rx
  | Opt rx
  | Star "char \<Rightarrow> bool"
  | Plus "char \<Rightarrow> bool"
  | Grp rx

primrec rx_match :: "rx \<Rightarrow> string \<Rightarrow> (string \<times> string option) list" where
  "rx_match Eps s = [(s, None)]"
| "rx_match (Cls p) s = (case s of [] \<Rightarrow> [] | c # cs \<Rightarrow> if p c then [(cs, None)] else [])"
| "rx_match (Cat a b) s =
     concat (map (\<lambda>(s1, g1). map (\<lambda>(s2, g2). (s2, case g2 of None \<Rightarrow> g1 | Some g \<Rightarrow> Some g))
                                  (rx_match b s1))
                 (rx_match a s))"
| "rx_match (Alt a b) s = rx_match a s @ rx_match b s"
| "rx_match (Opt a) s = rx_match a s @ [(s, None)]"
| "rx_match (Star p) s = map (\<lambda>k. (drop k s, None)) (rev [0 ..< Suc (length (takeWhile p s))])"
| "rx_match (Plus p) s = map (\<lambda>k. (drop k s, None)) (rev [1 ..< Suc (length (takeWhile p s))])"
| "rx_match (Grp a) s = map (\<lambda>(s1, g1). (s1, Some (take (length s - length s1) s))) (rx_match a s)"

text \<open>
  \<open>re.search\<close>: the first position at which the pattern matches, and there the first way
  it matches. The result is \<open>(match.group(0), group 1 if it took part)\<close>.
\<close>

fun re_search :: "rx \<Rightarrow> string \<Rightarrow> (string \<times> string option) option" where
  "re_search r [] =
     (case rx_match r [] of [] \<Rightarrow> None | (rest, g) # _ \<Rightarrow> Some ([], g))"
| "re_search r (c # cs) =
     (case rx_match r (c # cs) of
        [] \<Rightarrow> re_search r cs
      | (rest, g) # _ \<Rightarrow> Some (take (length (c # cs) - length rest) (c # cs), g))"

definition chr_i :: "char \<Rightarrow> rx" where
  "chr_i c = Cls (\<lambda>x. lower_char x = lower_char c)"

fun lit_i :: "string \<Rightarrow> rx" where
  "lit_i [] = Eps"
| "lit_i (c # cs) = Cat (chr_i c) (lit_i cs)"

definition sep_class :: "char \<Rightarrow> bool" where
  "sep_class c = (c = CHR ''-'' \<or> py_isspace c)"

text \<open>\<open>ORD[-\s]?(\d+)\<close>\<close>

definition pattern1 :: rx where
  "pattern1 = Cat (lit_i ''ORD'') (Cat (Opt (Cls sep_class)) (Grp (Plus py_isdigit)))"

text \<open>\<open>order\s*(?:id|number|#)?\s*:?\s*(ORD[-\s]?\d+)\<close>\<close>

definition pattern2 :: rx where
  "pattern2 =
     Cat (lit_i ''order'')
    (Cat (Star py_isspace)
    (Cat (Opt (Alt (lit_i ''id'') (Alt (lit_i ''number'') (chr_i CHR ''#''))))
    (Cat (Star py_isspace)
    (Cat (Opt (chr_i CHR '':''))
    (Cat (Star py_isspace)
         (Grp (Cat (lit_i ''ORD'') (Cat (Opt (Cls sep_class)) (Plus py_isdigit)))))))))"

text \<open>\<open>my\s*order\s*(?:is|id)?\s*(ORD[-\s]?\d+)\<close>\<close>

definition pattern3 :: rx where
  "pattern3 =
     Cat (lit_i ''my'')
    (Cat (Star py_isspace)
    (Cat (lit_i ''order'')
    (Cat (Star py_isspace)
    (Cat (Opt (Alt (lit_i ''is'') (lit_i ''id'')))
    (Cat (Star py_isspace)
         (Grp (Cat (lit_i ''ORD'') (Cat (Opt (Cls sep_class)) (Plus py_isdigit)))))))))"

definition patterns :: "rx list" where
  "patterns = [pattern1, pattern2, pattern3]"

subsection \<open>\<open>extract_order_id_from_message\<close> and \<open>get_order_by_id\<close>\<close>

text \<open>
  Every pattern has one group, so \<open>len(match.groups()) > 0\<close> holds and the id is
  \<open>group(1)\<close> when \<open>lastindex == 1\<close>, \<open>group(0)\<close> otherwise.
\<close>

definition matched_text :: "string \<times> string option \<Rightarrow> string" where
  "matched_text mt = (case snd mt of Some g \<Rightarrow> g | None \<Rightarrow> fst mt)"

definition normalize_order_id :: "string \<Rightarrow> string" where
  "normalize_order_id oid =
     (let oid1 = py_upper (remove_char CHR ''-'' (remove_char CHR '' '' oid))
      in if \<not> prefix ''ORD'' oid1 then ''ORD'' @ oid1 else oid1)"

fun first_match :: "rx list \<Rightarrow> string \<Rightarrow> string option" where
  "first_match [] m = None"
| "first_match (p # ps) m =
     (case re_search p m of
        Some mt \<Rightarrow> Some (normalize_order_id (matched_text mt))
      | None \<Rightarrow> first_match ps m)"

definition extract_order_id_from_message :: "string \<Rightarrow> string option" where
  "extract_order_id_from_message m = first_match patterns m"

text \<open>
  The scan of \<open>get_order_by_id\<close>. \<open>order.get("order_id", "").upper()\<close> raises on a
  value that is not a string; the \<open>except\<close> then returns \<open>None\<close> for the whole lookup.
\<close>

fun find_order :: "string \<Rightarrow> pydict list \<Rightarrow> pydict option" where
  "find_order oid [] = None"
| "find_order oid (order # rest) =
     (case dict_get_default order ''order_id'' (PStr '''') of
        PStr v \<Rightarrow> if py_upper v = oid then Some order else find_order oid rest
      | _ \<Rightarrow> None)"

definition get_order_by_id :: "env \<Rightarrow> string \<Rightarrow> pydict option" where
  "get_order_by_id e oid = find_order (py_upper (py_strip oid)) (orders_json e)"

section \<open>agents.py\<close>

definition valid_intents :: "string list" where
  "valid_intents = [''troubleshoot'', ''refund'', ''replacement'', ''service_booking'',
                    ''order_status'', ''product_information'', ''general_query'']"

definition intent_agent :: "env \<Rightarrow> string \<Rightarrow> string" where
  "intent_agent e user_message =
     (if \<not> model_ready e then ''general_query''
      else case llm_intent e user_message of
             None \<Rightarrow> ''general_query''
           | Some text \<Rightarrow>
               let i = py_lower (py_strip text)
               in if i \<notin> set valid_intents then ''general_query'' else i)"

definition retrieval_agent :: "env \<Rightarrow> string \<Rightarrow> string" where
  "retrieval_agent e query =
     (let docs = search_knowledge e query
      in if docs \<noteq> [] then join (newline @ newline) docs else '''')"

definition responder_agent :: "env \<Rightarrow> string \<Rightarrow> string \<Rightarrow> string \<Rightarrow> string" where
  "responder_agent e ctx msg session_context =
     (if \<not> model_ready e
      then ''I apologize, but I'' @ [CHR 0x27] @
           ''m experiencing technical difficulties. Please try again later.''
      else case llm_respond e ctx msg session_context of
             None \<Rightarrow> ''I apologize, but I'' @ [CHR 0x27] @
                     ''m having trouble processing your request. Please try again.''
           | Some text \<Rightarrow> py_strip text)"

definition verifier_agent :: "env \<Rightarrow> string \<Rightarrow> string \<Rightarrow> string" where
  "verifier_agent e draft_response ctx =
     (if \<not> model_ready e then draft_response
      else case llm_verify e draft_response ctx of
             None \<Rightarrow> draft_response
           | Some text \<Rightarrow> py_strip text)"

definition intent_to_action :: "(string \<times> string) list" where
  "intent_to_action = [
     (''refund'', ''initiate_refund''),
     (''replacement'', ''initiate_replacement''),
     (''service_booking'', ''book_service''),
     (''order_status'', ''none''),
     (''product_information'', ''none''),
     (''troubleshoot'', ''none''),
     (''general_query'', ''none'')]"

definition action_agent :: "string \<Rightarrow> string \<Rightarrow> string" where
  "action_agent i verified_response =
     (case map_of intent_to_action i of Some a \<Rightarrow> a | None \<Rightarrow> ''none'')"

definition action_confirmation_agent :: "env \<Rightarrow> string \<Rightarrow> string option" where
  "action_confirmation_agent e action_type =
     (if action_type = ''none'' then None
      else if \<not> model_ready e
      then Some (''To proceed with '' @ action_type @ '', please confirm.'')
      else case llm_confirm e action_type of
             None \<Rightarrow> Some (''To proceed with '' @ action_type @ '', please confirm.'')
           | Some text \<Rightarrow> Some (py_strip text))"

subsection \<open>The action ledgers\<close>

text \<open>
  The three files \<open>data/refunds.json\<close>, \<open>data/replacements.json\<close> and
  \<open>data/service_bookings.json\<close>. A file is absent, or holds a JSON array of records, or
  holds something \<open>json.load\<close> rejects.
\<close>

datatype ledger_file = Absent | Corrupt | Records "pydict list"

record ledgers =
  refunds_json :: ledger_file
  replacements_json :: ledger_file
  service_bookings_json :: ledger_file

text \<open>
  \<open>[r for r in records if date_str in r.get('id', '')]\<close>. The test \<open>in\<close> raises a
  \<open>TypeError\<close> when the id is not a string; the result is then \<open>None\<close>.
\<close>

fun today_records :: "string \<Rightarrow> pydict list \<Rightarrow> pydict list option" where
  "today_records d [] = Some []"
| "today_records d (r # rs) =
     (case dict_get_default r ''id'' (PStr '''') of
        PStr i \<Rightarrow> (case today_records d rs of
                     None \<Rightarrow> None
                   | Some ts \<Rightarrow> Some (if sublist d i then r # ts else ts))
      | _ \<Rightarrow> None)"

text \<open>The format specification \<open>{sequence:04d}\<close>: decimal, padded with zeros to four characters.\<close>

definition fmt_04d :: "nat \<Rightarrow> string" where
  "fmt_04d n = replicate (4 - length (dec n)) CHR ''0'' @ dec n"

definition next_action_id :: "env \<Rightarrow> string \<Rightarrow> ledger_file \<Rightarrow> string" where
  "next_action_id e pfx file =
     (case file of
        Absent \<Rightarrow> pfx @ ''-'' @ date_str e @ ''-'' @ fmt_04d 1
      | Corrupt \<Rightarrow> ''ERR-'' @ date_str e @ ''-0000''
      | Records records \<Rightarrow>
          (case today_records (date_str e) records of
             None \<Rightarrow> ''ERR-'' @ date_str e @ ''-0000''
           | Some today \<Rightarrow> pfx @ ''-'' @ date_str e @ ''-'' @ fmt_04d (length today + 1)))"

definition generate_action_id :: "env \<Rightarrow> ledgers \<Rightarrow> string \<Rightarrow> string" where
  "generate_action_id e lg action_type =
     (if action_type = ''initiate_refund'' then next_action_id e ''REF'' (refunds_json lg)
      else if action_type = ''initiate_replacement''
      then next_action_id e ''REP'' (replacements_json lg)
      else if action_type = ''book_service''
      then next_action_id e ''SRV'' (service_bookings_json lg)
      else ''ACTION-'' @ date_str e @ ''-0001'')"

text \<open>
  Read, append, write back. A file that cannot be parsed, or a write that fails, leaves
  the ledger as it was and gives \<open>False\<close>.
\<close>

definition append_record :: "env \<Rightarrow> ledger_file \<Rightarrow> pydict \<Rightarrow> bool \<times> ledger_file" where
  "append_record e file action_data =
     (case file of
        Corrupt \<Rightarrow> (False, file)
      | Absent \<Rightarrow> if disk_writable e then (True, Records ([] @ [action_data])) else (False, file)
      | Records records \<Rightarrow>
          if disk_writable e then (True, Records (records @ [action_data])) else (False, file))"

definition save_action_data :: "env \<Rightarrow> ledgers \<Rightarrow> string \<Rightarrow> pydict \<Rightarrow> bool \<times> ledgers" where
  "save_action_data e lg action_type action_data =
     (if action_type = ''initiate_refund''
      then (case append_record e (refunds_json lg) action_data of
              (ok, f) \<Rightarrow> (ok, lg\<lparr>refunds_json := f\<rparr>))
      else if action_type = ''initiate_replacement''
      then (case append_record e (replacements_json lg) action_data of
              (ok, f) \<Rightarrow> (ok, lg\<lparr>replacements_json := f\<rparr>))
      else if action_type = ''book_service''
      then (case append_record e (service_bookings_json lg) action_data of
              (ok, f) \<Rightarrow> (ok, lg\<lparr>service_bookings_json := f\<rparr>))
      else (False, lg))"

subsection \<open>\<open>execute_action\<close>\<close>

text \<open>\<open>user_details.get(k, default) if user_details else default\<close>\<close>

definition details_get :: "pydict option \<Rightarrow> string \<Rightarrow> pyval \<Rightarrow> pyval" where
  "details_get user_details k dflt =
     (case user_details of
        None \<Rightarrow> dflt
      | Some d \<Rightarrow> if d = [] then dflt else dict_get_default d k dflt)"

text \<open>
  The dict that \<open>execute_action\<close> returns: the full result of a known action, or the
  short one with status \<open>unknown\<close>.
\<close>

datatype action_result =
    Logged (ar_action: string) (ar_action_id: string) (ar_status: string)
           (ar_message: string) (ar_data: pydict)
  | Unknown_action (ar_action: string) (ar_message: string)

fun result_status :: "action_result \<Rightarrow> string" where
  "result_status (Logged a i s m d) = s"
| "result_status (Unknown_action a m) = ''unknown''"

definition refund_data :: "env \<Rightarrow> string \<Rightarrow> pydict option \<Rightarrow> pydict" where
  "refund_data e aid user_details = [
     (''id'', PStr aid),
     (''refund_id'', PStr aid),
     (''product_name'', details_get user_details ''product_name'' (PStr ''N/A'')),
     (''user_email'', details_get user_details ''email'' (PStr '''')),
     (''user_name'', details_get user_details ''name'' (PStr '''')),
     (''date'', PStr (now_str e)),
     (''status'', PStr ''processing'')]"

definition replacement_data :: "env \<Rightarrow> string \<Rightarrow> pydict option \<Rightarrow> pydict" where
  "replacement_data e aid user_details = [
     (''id'', PStr aid),
     (''replacement_id'', PStr aid),
     (''product_name'', details_get user_details ''product_name'' (PStr ''N/A'')),
     (''user_email'', details_get user_details ''email'' (PStr '''')),
     (''user_name'', details_get user_details ''name'' (PStr '''')),
     (''date'', PStr (now_str e)),
     (''status'', PStr ''processing'')]"

definition service_data :: "env \<Rightarrow> string \<Rightarrow> pydict option \<Rightarrow> pydict" where
  "service_data e aid user_details = [
     (''id'', PStr aid),
     (''service_id'', PStr aid),
     (''product_name'', details_get user_details ''product_name'' (PStr ''N/A'')),
     (''user_email'', details_get user_details ''email'' (PStr '''')),
     (''user_name'', details_get user_details ''name'' (PStr '''')),
     (''user_address'', details_get user_details ''address'' (PStr '''')),
     (''contact_number'', details_get user_details ''phone'' (PStr '''')),
     (''service_center'', details_get user_details ''service_center'' (PStr ''Nearest Center'')),
     (''scheduled_date'', details_get user_details ''scheduled_date'' (PStr ''TBD'')),
     (''time_slot'', details_get user_details ''time_slot'' (PStr ''TBD'')),
     (''date'', PStr (now_str e))]"

definition execute_action ::
    "env \<Rightarrow> ledgers \<Rightarrow> string \<Rightarrow> pydict option \<Rightarrow> action_result option \<times> ledgers" where
  "execute_action e lg act user_details =
     (if act = ''none'' then (None, lg)
      else
        let aid = generate_action_id e lg act in
        if act \<in> set [''initiate_refund'', ''initiate_replacement'', ''book_service'']
        then
          let action_data =
                (if act = ''initiate_refund'' then refund_data e aid user_details
                 else if act = ''initiate_replacement'' then replacement_data e aid user_details
                 else service_data e aid user_details)
          in case save_action_data e lg act action_data of
               (save_success, lg1) \<Rightarrow>
                 (Some (Logged act aid (if save_success then ''success'' else ''partial'')
                          (''Action '' @ [CHR 0x27] @ act @ [CHR 0x27] @
                           '' has been logged with ID: '' @ aid)
                          action_data), lg1)
        else (Some (Unknown_action act (''Unknown action type: '' @ act)), lg))"

section \<open>orchestrator.py\<close>

text \<open>
  The state \<open>process_message\<close> works on: the session store, the ledgers, and a log of the
  calls it makes to the functions of \<open>agents.py\<close> (the log is what "is invoked" and
  "is bypassed" are read from).
\<close>

datatype agent =
    Intent_agent | Retrieval_agent | Responder_agent | Verifier_agent
  | Action_agent | Action_confirmation_agent | Execute_action

record world =
  SESSION_STATE :: store
  ledger :: ledgers
  agent_calls :: "agent list"

text \<open>The dict that \<open>process_message\<close> returns.\<close>

record result =
  answer :: string
  intent :: string
  rag_sources :: string
  action :: string
  action_confirmation :: "string option"
  action_log :: "action_result option"
  session_id :: string

text \<open>
  The variable \<open>session\<close> of \<open>process_message\<close> is the very dict held in
  \<open>SESSION_STATE\<close>: every write through \<open>session_manager\<close> shows in later
  \<open>session.get\<close> calls. A read of \<open>session\<close> is therefore a read of the current store.
\<close>

definition session_ref :: "store \<Rightarrow> string \<Rightarrow> session" where
  "session_ref st sid =
     (case st sid of Some s \<Rightarrow> s | None \<Rightarrow> \<lparr>slots = [], conversation_history = []\<rparr>)"

definition session_get :: "store \<Rightarrow> string \<Rightarrow> string \<Rightarrow> pyval" where
  "session_get st sid k = dict_get (slots (session_ref st sid)) k"

subsection \<open>Order linkage and slot capture (lines 39 to 76)\<close>

definition order_keys :: "string list" where
  "order_keys = [''order_id'', ''customer_name'', ''customer_email'', ''customer_phone'',
                 ''product_id'', ''product_name'', ''serial_number'', ''purchase_date'',
                 ''warranty_years'']"

definition link_order :: "env \<Rightarrow> store \<Rightarrow> string \<Rightarrow> string \<Rightarrow> store" where
  "link_order e st sid msg =
     (case extract_order_id_from_message msg of
        None \<Rightarrow> st
      | Some extracted_order_id \<Rightarrow>
          if extracted_order_id = [] then st
          else case get_order_by_id e extracted_order_id of
                 None \<Rightarrow> st
               | Some order_data \<Rightarrow>
                   if order_data = [] then st
                   else update_session_bulk e st sid
                          (map (\<lambda>k. (k, dict_get order_data k)) order_keys))"

definition capture_reason :: "env \<Rightarrow> store \<Rightarrow> string \<Rightarrow> string \<Rightarrow> store" where
  "capture_reason e st sid msg =
     (if truthy (session_get st sid ''order_id'') \<and>
         \<not> truthy (session_get st sid ''reason_for_action'')
      then (if length msg > 10 \<and> \<not> suffix ''?'' (py_strip msg)
            then update_session e st sid ''reason_for_action'' (PStr (py_strip msg))
            else st)
      else st)"

definition datetime_keywords :: "string list" where
  "datetime_keywords = [''tomorrow'', ''monday'', ''tuesday'', ''wednesday'', ''thursday'',
                        ''friday'', ''saturday'', ''sunday'', ''next week'', ''pm'', ''am'',
                        ''december'', ''january'']"

definition capture_datetime :: "env \<Rightarrow> store \<Rightarrow> string \<Rightarrow> string \<Rightarrow> store" where
  "capture_datetime e st sid msg =
     (if truthy (session_get st sid ''order_id'') \<and>
         \<not> truthy (session_get st sid ''preferred_datetime'')
      then (if list_ex (\<lambda>keyword. sublist keyword (py_lower msg)) datetime_keywords
            then update_session e st sid ''preferred_datetime'' (PStr (py_strip msg))
            else st)
      else st)"

subsection \<open>The flow controller (lines 97 to 138)\<close>

definition should_skip_to_action :: "session \<Rightarrow> string \<Rightarrow> bool" where
  "should_skip_to_action s i =
     (truthy (dict_get (slots s) ''order_id'') \<and>
      i \<in> set [''initiate_refund'', ''initiate_replacement'', ''book_service''])"

definition action_labels :: "(string \<times> string) list" where
  "action_labels = [
     (''initiate_refund'', ''refund''),
     (''initiate_replacement'', ''replacement''),
     (''book_service'', ''service appointment'')]"

definition action_label :: "string \<Rightarrow> string" where
  "action_label a = (case map_of action_labels a of Some l \<Rightarrow> l | None \<Rightarrow> ''request'')"

definition acknowledgement :: "session \<Rightarrow> string \<Rightarrow> string" where
  "acknowledgement s i =
     (let customer_name = dict_get_default (slots s) ''customer_name'' (PStr ''Customer'');
          product_name = dict_get_default (slots s) ''product_name'' (PStr ''your product'');
          order_id = dict_get (slots s) ''order_id'';
          lbl = action_label i
      in ''Thank you, '' @ py_str customer_name @ ''. I understand you'' @ [CHR 0x27] @
         ''d like to proceed with a '' @ lbl @ '' for '' @ py_str product_name @
         '' (Order ID: '' @ py_str order_id @ '').'' @ newline @ newline @
         ''I'' @ [CHR 0x27] @ ''m processing your '' @ lbl @
         '' request now. Please wait a moment...'')"

text \<open>The verified response and the agents called to obtain it.\<close>

definition respond ::
    "env \<Rightarrow> session \<Rightarrow> string \<Rightarrow> string \<Rightarrow> string \<Rightarrow> string \<Rightarrow> string \<times> agent list" where
  "respond e s i ctx msg session_context =
     (if should_skip_to_action s i
      then (acknowledgement s i, [])
      else
        let draft_response = responder_agent e ctx msg session_context;
            verified_response = verifier_agent e draft_response ctx
        in (verified_response, [Responder_agent, Verifier_agent]))"

subsection \<open>Action execution (lines 158 to 234)\<close>

definition processed_text :: "string \<Rightarrow> string \<Rightarrow> string" where
  "processed_text lbl aid =
     ''Your '' @ lbl @ '' request has been processed.'' @ newline @ newline @
     ''**Request ID:** '' @ aid @ newline @ newline @
     ''You'' @ [CHR 0x27] @ ''ll receive confirmation via email shortly.''"

definition user_details_of :: "session \<Rightarrow> pydict" where
  "user_details_of s = [
     (''email'', dict_get (slots s) ''customer_email''),
     (''name'', dict_get (slots s) ''customer_name''),
     (''product_name'', dict_get (slots s) ''product_name''),
     (''order_id'', dict_get (slots s) ''order_id''),
     (''phone'', if truthy (dict_get (slots s) ''customer_phone'')
                 then dict_get (slots s) ''customer_phone'' else PStr '''')]"

text \<open>
  The outcome of the block: the response, the action, the action log, and the world.
  The e-mail of \<open>notifications.py\<close> changes neither the store nor the ledgers, and its
  result is only logged.
\<close>

definition run_action ::
    "env \<Rightarrow> world \<Rightarrow> string \<Rightarrow> string \<Rightarrow> string \<Rightarrow>
     string \<times> string \<times> action_result option \<times> world" where
  "run_action e w sid act verified_response =
     (if act \<noteq> ''none''
      then
        case check_missing_info_for_action e (SESSION_STATE w) sid act of
          (info_status, st1) \<Rightarrow>
            if \<not> complete info_status
            then (prompt info_status, ''none'', None, w\<lparr>SESSION_STATE := st1\<rparr>)
            else
              let user_details = user_details_of (session_ref st1 sid) in
              case execute_action e (ledger w) act (Some user_details) of
                (action_result, lg1) \<Rightarrow>
                  let w1 = w\<lparr>SESSION_STATE := st1, ledger := lg1,
                              agent_calls := agent_calls w @ [Execute_action]\<rparr>
                  in case action_result of
                       Some (Logged a aid status m d) \<Rightarrow>
                         if status = ''success''
                         then (processed_text (action_label act) aid, act, action_result,
                               w1\<lparr>SESSION_STATE := mark_action_completed st1 sid aid act\<rparr>)
                         else (verified_response, act, action_result, w1)
                     | _ \<Rightarrow> (verified_response, act, action_result, w1)
      else (verified_response, act, None, w))"

subsection \<open>\<open>process_message\<close>\<close>

definition pipeline :: "env \<Rightarrow> world \<Rightarrow> string \<Rightarrow> string \<Rightarrow> result \<times> world" where
  "pipeline e w msg sid =
     (let st1 = snd (get_session e (SESSION_STATE w) sid);
          st2 = add_to_conversation_history e st1 sid ''user'' msg;
          st3 = link_order e st2 sid msg;
          st4 = capture_reason e st3 sid msg;
          st5 = capture_datetime e st4 sid msg;
          (session_context, st6) = get_session_context e st5 sid;
          classified = intent_agent e msg;
          ctx = retrieval_agent e msg;
          (verified_response, calls) =
             respond e (session_ref st6 sid) classified ctx msg session_context;
          act = action_agent classified verified_response;
          confirmation_message =
             (if act \<noteq> ''none'' then action_confirmation_agent e act else None);
          w6 = w\<lparr>SESSION_STATE := st6,
                  agent_calls := agent_calls w @ [Intent_agent, Retrieval_agent] @ calls @
                    [Action_agent] @
                    (if act \<noteq> ''none'' then [Action_confirmation_agent] else [])\<rparr>;
          (final_response, final_action, action_result, w7) =
             run_action e w6 sid act verified_response;
          st8 = add_to_conversation_history e (SESSION_STATE w7) sid ''assistant'' final_response
      in (\<lparr>answer = final_response,
            intent = classified,
            rag_sources = take 500 ctx,
            action = final_action,
            action_confirmation = confirmation_message,
            action_log = action_result,
            session_id = sid\<rparr>,
          w7\<lparr>SESSION_STATE := st8\<rparr>))"

text \<open>
  The \<open>try\<close> block. \<open>message\<close> and \<open>session_id\<close> are untyped parameters. The first
  statement that touches the message is \<open>message[:50]\<close>, which raises a \<open>TypeError\<close>
  unless the message is a string; every later call that can fail is caught where it is
  made. A falsy \<open>session_id\<close> is replaced before that.
\<close>

datatype pyexn = TypeError

definition resolve_session_id :: "env \<Rightarrow> string option \<Rightarrow> string" where
  "resolve_session_id e sid0 =
     (case sid0 of
        None \<Rightarrow> ''session_'' @ take 12 (uuid_hex e)
      | Some sid \<Rightarrow> if sid = [] then ''session_'' @ take 12 (uuid_hex e) else sid)"

definition process_message_try ::
    "env \<Rightarrow> world \<Rightarrow> pyval \<Rightarrow> string option \<Rightarrow> (pyexn + result) \<times> world" where
  "process_message_try e w msg0 sid0 =
     (let sid = resolve_session_id e sid0
      in case msg0 of
           PStr msg \<Rightarrow> (case pipeline e w msg sid of (r, w1) \<Rightarrow> (Inr r, w1))
         | _ \<Rightarrow> (Inl TypeError, w))"

definition error_payload :: "string \<Rightarrow> result" where
  "error_payload sid =
     \<lparr>answer = ''I apologize, but I encountered an error processing your request. Please try again.'',
      intent = ''error'',
      rag_sources = '''',
      action = ''none'',
      action_confirmation = None,
      action_log = None,
      session_id = (if sid \<noteq> [] then sid else ''unknown'')\<rparr>"

definition process_message :: "env \<Rightarrow> world \<Rightarrow> pyval \<Rightarrow> string option \<Rightarrow> result \<times> world" where
  "process_message e w msg0 sid0 =
     (case process_message_try e w msg0 sid0 of
        (Inr r, w1) \<Rightarrow> (r, w1)
      | (Inl ex, w1) \<Rightarrow> (error_payload (resolve_session_id e sid0), w1))"

section \<open>The slot table of the specification\<close>

definition action_types :: "string list" where
  "action_types = [''initiate_refund'', ''initiate_replacement'', ''book_service'']"

text \<open>
  The specification gives the slot-fill engine as a table: the required slots of each
  action type in priority order, and one question per slot. \<open>spec_check_missing\<close>
  is that table read literally; it is compared with \<open>check_missing\<close> below.
\<close>

definition required_slots :: "string \<Rightarrow> string list" where
  "required_slots t =
     (if t = ''initiate_refund'' then [''order_id'', ''reason_for_action'']
      else if t = ''initiate_replacement'' then [''order_id'', ''reason_for_action'']
      else if t = ''book_service'' then [''order_id'', ''preferred_datetime'']
      else [])"

definition slot_question :: "string \<Rightarrow> string \<Rightarrow> string" where
  "slot_question t k =
     (if k = ''order_id'' then order_id_prompt
      else if t = ''initiate_refund'' then refund_reason_prompt
      else if t = ''initiate_replacement'' then replacement_issue_prompt
      else service_datetime_prompt)"

definition spec_check_missing :: "session \<Rightarrow> string \<Rightarrow> info_status" where
  "spec_check_missing s t =
     (let m = filter (\<lambda>k. \<not> truthy (dict_get (slots s) k)) (required_slots t)
      in \<lparr>missing = m, complete = (m = []),
          prompt = (case m of [] \<Rightarrow> '''' | k # _ \<Rightarrow> slot_question t k)\<rparr>)"

section \<open>Sample inputs\<close>

text \<open>
  A concrete environment, order file and sessions, used where a statement is instantiated:
  one order \<open>ORD201\<close>, a model that answers every classification with \<open>Refund\<close>, drafts
  \<open>ok\<close>, verifies by returning the draft, and fails to produce a confirmation.
\<close>

definition sample_order :: pydict where
  "sample_order = [(''order_id'', PStr ''ORD201''), (''customer_name'', PStr ''Asha''),
                   (''product_name'', PStr ''Mixer'')]"

definition sample_env :: env where
  "sample_env = \<lparr>
     iso_now = ''2025-12-24T10:00:00'',
     date_str = ''20251224'',
     now_str = ''2025-12-24 10:00:00'',
     uuid_hex = ''0123456789abcdef0123456789abcdef'',
     orders_json = [sample_order],
     search_knowledge = (\<lambda>q. []),
     disk_writable = True,
     model_ready = True,
     llm_intent = (\<lambda>m. Some ''Refund''),
     llm_respond = (\<lambda>c m s. Some ''ok''),
     llm_verify = (\<lambda>d c. Some d),
     llm_confirm = (\<lambda>a. None)\<rparr>"

definition empty_ledgers :: ledgers where
  "empty_ledgers = \<lparr>refunds_json = Absent, replacements_json = Absent,
                     service_bookings_json = Absent\<rparr>"

definition sample_world :: world where
  "sample_world = \<lparr>SESSION_STATE = Map.empty, ledger = empty_ledgers, agent_calls = []\<rparr>"

text \<open>A session that knows its order and nothing else.\<close>

definition linked_session :: session where
  "linked_session = \<lparr>slots = [(''order_id'', PStr ''ORD201''), (''customer_name'', PStr ''Asha''),
                               (''product_name'', PStr ''Mixer''), (''reason_for_action'', PNone),
                               (''preferred_datetime'', PNone)],
                      conversation_history = []\<rparr>"

section \<open>Action ids and ledger runs\<close>

text \<open>
  The two id shapes of the specification, \<open>^(REF|REP|SRV)-\d{8}-\d{4}$\<close> and
  \<open>ERR-\d{8}-0000\<close>, as tests on a string.
\<close>

definition action_id_format :: "string \<Rightarrow> bool" where
  "action_id_format s =
     (length s = 17 \<and> take 3 s \<in> set [''REF'', ''REP'', ''SRV''] \<and>
      take 1 (drop 3 s) = ''-'' \<and> list_all py_isdigit (take 8 (drop 4 s)) \<and>
      take 1 (drop 12 s) = ''-'' \<and> list_all py_isdigit (drop 13 s))"

definition error_id_format :: "string \<Rightarrow> bool" where
  "error_id_format s =
     (length s = 17 \<and> take 4 s = ''ERR-'' \<and> list_all py_isdigit (take 8 (drop 4 s)) \<and>
      drop 12 s = ''-0000'')"

text \<open>The ledger file and the id prefix that belong to an action type.\<close>

definition ledger_file_of :: "ledgers \<Rightarrow> string \<Rightarrow> ledger_file" where
  "ledger_file_of lg t =
     (if t = ''initiate_refund'' then refunds_json lg
      else if t = ''initiate_replacement'' then replacements_json lg
      else service_bookings_json lg)"

definition prefix_of :: "string \<Rightarrow> string" where
  "prefix_of t =
     (if t = ''initiate_refund'' then ''REF''
      else if t = ''initiate_replacement'' then ''REP''
      else ''SRV'')"

text \<open>
  How many records of a ledger file carry the date in their id; \<open>None\<close> when the file
  cannot be read as a list of records with string ids.
\<close>

definition today_count :: "string \<Rightarrow> ledger_file \<Rightarrow> nat option" where
  "today_count d file =
     (case file of
        Absent \<Rightarrow> Some 0
      | Corrupt \<Rightarrow> None
      | Records records \<Rightarrow> map_option length (today_records d records))"



text \<open>The record that \<open>execute_action\<close> builds for a known action type.\<close>

definition action_data_of :: "env \<Rightarrow> string \<Rightarrow> string \<Rightarrow> pydict option \<Rightarrow> pydict" where
  "action_data_of e t aid ud =
     (if t = ''initiate_refund'' then refund_data e aid ud
      else if t = ''initiate_replacement'' then replacement_data e aid ud
      else service_data e aid ud)"

text \<open>A refund ledger that already holds the 9999 ids of one day.\<close>

definition day_record :: "nat \<Rightarrow> pydict" where
  "day_record n = [(''id'', PStr (''REF-20251224-'' @ fmt_04d n))]"

definition full_day_ledgers :: ledgers where
  "full_day_ledgers = empty_ledgers\<lparr>refunds_json := Records (map day_record [1..<10000])\<rparr>"


text \<open>
  The specification counts the existing records of a type whose id contains the date.
  Read on a ledger file, without going through the generator: the records the file
  holds, whether the \<open>id\<close> of a record is a string that contains the date, and the
  records of the file for which this is so.
\<close>

definition records_of :: "ledger_file \<Rightarrow> pydict list" where
  "records_of file = (case file of Records records \<Rightarrow> records | _ \<Rightarrow> [])"








section \<open>Stages of the pipeline\<close>

text \<open>
  The store after lines 34 to 76 of \<open>process_message\<close>: session resolved, user message
  appended to the history, order linked, reason and date captured. The slot-fill check
  of the same request reads this store.
\<close>

definition store_after_capture :: "env \<Rightarrow> store \<Rightarrow> string \<Rightarrow> string \<Rightarrow> store" where
  "store_after_capture e st sid msg =
     capture_datetime e
       (capture_reason e
          (link_order e
             (add_to_conversation_history e (snd (get_session e st sid)) sid ''user'' msg)
             sid msg)
          sid msg)
       sid msg"

text \<open>The action that the request resolves to: the fixed mapping applied to the classified intent.\<close>

definition resolved_action :: "env \<Rightarrow> string \<Rightarrow> string" where
  "resolved_action e msg = action_agent (intent_agent e msg) []"

text \<open>Whether the lower-cased message contains one of the thirteen date keywords.\<close>

definition mentions_datetime :: "string \<Rightarrow> bool" where
  "mentions_datetime msg = list_ex (\<lambda>keyword. sublist keyword (py_lower msg)) datetime_keywords"

text \<open>A session whose reason and date are both still missing, stored under \<open>s1\<close>.\<close>

definition linked_store :: store where
  "linked_store = [''s1'' \<mapsto> linked_session]"

text \<open>The store holds a (non-empty) session dict under the id.\<close>

definition live :: "store \<Rightarrow> string \<Rightarrow> bool" where
  "live st sid = (case st sid of None \<Rightarrow> False | Some s \<Rightarrow> slots s \<noteq> [])"

text \<open>
  The state in which \<open>process_message\<close> reaches its action block (line 158): the
  response obtained from the flow controller, and the world with the calls made so far.
\<close>

definition response_before_action :: "env \<Rightarrow> world \<Rightarrow> string \<Rightarrow> string \<Rightarrow> string \<times> agent list" where
  "response_before_action e w msg sid =
     (case get_session_context e (store_after_capture e (SESSION_STATE w) sid msg) sid of
        (session_context, st6) \<Rightarrow>
          respond e (session_ref st6 sid) (intent_agent e msg) (retrieval_agent e msg) msg
            session_context)"

definition world_before_action :: "env \<Rightarrow> world \<Rightarrow> string \<Rightarrow> string \<Rightarrow> world" where
  "world_before_action e w msg sid =
     w\<lparr>SESSION_STATE :=
          snd (get_session_context e (store_after_capture e (SESSION_STATE w) sid msg) sid),
        agent_calls := agent_calls w @ [Intent_agent, Retrieval_agent] @
          snd (response_before_action e w msg sid) @ [Action_agent] @
          (if resolved_action e msg \<noteq> ''none'' then [Action_confirmation_agent] else [])\<rparr>"


text \<open>The world in which the session \<open>s1\<close> is already linked to its order.\<close>

definition linked_world :: world where
  "linked_world = \<lparr>SESSION_STATE = linked_store, ledger = empty_ledgers, agent_calls = []\<rparr>"

section \<open>The slot-fill engine\<close>

lemma check_missing_refines:
  assumes "t \<in> set action_types"
  shows "check_missing s t = spec_check_missing s t"
  using assms
  by (auto simp: action_types_def check_missing_def spec_check_missing_def required_slots_def
        slot_question_def Let_def)

text \<open>
  Claim C6. For the three action types, the slot check of an existing session is the
  table of the specification: the missing slots are the required slots of the type that
  are not filled, \<open>order_id\<close> before the type's own slot; \<open>complete\<close> says that none is
  missing; the prompt is the question of the first missing slot. The answer depends on
  the session's slots and the action type alone, and the store is left as it was.
\<close>

theorem check_missing_is_table:
  assumes "t \<in> set action_types" and "st sid = Some s" and "slots s \<noteq> []"
  shows "check_missing_info_for_action e st sid t = (spec_check_missing s t, st)"
  using assms
  by (simp add: check_missing_info_for_action_def get_session_def check_missing_refines)

theorem check_missing_is_table_witness:
  "check_missing_info_for_action sample_env [''s1'' \<mapsto> linked_session] ''s1'' ''initiate_refund''
   = (\<lparr>missing = [''reason_for_action''], complete = False, prompt = refund_reason_prompt\<rparr>,
      [''s1'' \<mapsto> linked_session])"
  using check_missing_is_table [of "''initiate_refund''" "[''s1'' \<mapsto> linked_session]" "''s1''"
      linked_session sample_env]
  by (simp add: action_types_def spec_check_missing_def required_slots_def dict_get_def
        slot_question_def linked_session_def)

section \<open>The flow controller\<close>


lemma respond_generate:
  "\<not> should_skip_to_action s i \<Longrightarrow>
   respond e s i ctx msg sc =
     (verifier_agent e (responder_agent e ctx msg sc) ctx, [Responder_agent, Verifier_agent])"
  by (simp add: respond_def Let_def)




lemma intent_agent_valid: "intent_agent e m \<in> set valid_intents"
  by (simp add: intent_agent_def Let_def valid_intents_def split: option.splits)

lemma valid_intent_no_skip: "i \<in> set valid_intents \<Longrightarrow> \<not> should_skip_to_action s i"
  by (auto simp: valid_intents_def should_skip_to_action_def)

lemma run_action_calls:
  "run_action e w sid act v = (r, a, lg, w') \<Longrightarrow> prefix (agent_calls w) (agent_calls w')"
  by (auto simp: run_action_def Let_def
        split: if_splits prod.splits option.splits action_result.splits)

lemma pipeline_calls:
  "prefix (agent_calls w @
           [Intent_agent, Retrieval_agent, Responder_agent, Verifier_agent, Action_agent])
          (agent_calls (snd (pipeline e w msg sid)))"
proof -
  have ns: "\<not> should_skip_to_action s (intent_agent e msg)" for s
    using intent_agent_valid valid_intent_no_skip by blast
  show ?thesis
    unfolding pipeline_def Let_def
    apply (simp add: respond_generate [OF ns] split: prod.splits)
    apply (auto dest!: run_action_calls simp: prefix_def)
    done
qed

text \<open>
  Claim C2. The classifier \<open>intent_agent\<close> only returns one of its seven documented
  labels. For each of these labels the bypass condition of the flow controller is false
  and the responder and the verifier produce the response. Hence every run of the
  pipeline on a message calls the responder and the verifier, right after the intent and
  retrieval agents: the acknowledgement branch is never taken.
\<close>

theorem classifier_never_bypasses:
  "intent_agent e msg \<in> set valid_intents
   \<and> (\<forall>i \<in> set valid_intents.
        \<not> should_skip_to_action s i \<and>
        respond e s i ctx msg sc =
          (verifier_agent e (responder_agent e ctx msg sc) ctx,
           [Responder_agent, Verifier_agent]))
   \<and> prefix (agent_calls w @
             [Intent_agent, Retrieval_agent, Responder_agent, Verifier_agent, Action_agent])
            (agent_calls (snd (pipeline e w msg sid)))"
  using intent_agent_valid [of e msg] valid_intent_no_skip [of _ s]
        respond_generate [of s _ e ctx msg sc] pipeline_calls [of w e msg sid]
  by blast

theorem classifier_never_bypasses_witness:
  "''refund'' \<in> set valid_intents
   \<and> \<not> should_skip_to_action linked_session ''refund''
   \<and> respond sample_env linked_session ''refund'' '''' ''please refund'' '''' =
       (''ok'', [Responder_agent, Verifier_agent])
   \<and> prefix [Intent_agent, Retrieval_agent, Responder_agent, Verifier_agent, Action_agent]
        (agent_calls (snd (pipeline sample_env sample_world ''please refund'' ''s1'')))"
  using classifier_never_bypasses [of sample_env "''please refund''" linked_session "''''" "''''"
          sample_world "''s1''"]
  by (simp add: valid_intents_def verifier_agent_def responder_agent_def sample_env_def
        sample_world_def py_strip_def py_isspace_def)

section \<open>Action ids\<close>

lemma digit_char_isdigit: "d < 10 \<Longrightarrow> py_isdigit (digit_char d)"
  unfolding py_isdigit_def digit_char_def
  by (rule nth_mem) simp

lemma dec_digits: "list_all py_isdigit (dec n)"
proof (induction n rule: dec.induct)
  case (1 n)
  show ?case
  proof (cases "n < 10")
    case True
    then show ?thesis by (subst dec.simps) (simp add: digit_char_isdigit)
  next
    case False
    then show ?thesis using 1 by (subst dec.simps) (simp add: digit_char_isdigit)
  qed
qed

lemma dec_length: "0 < k \<Longrightarrow> n < 10 ^ k \<Longrightarrow> length (dec n) \<le> k"
proof (induction n arbitrary: k rule: dec.induct)
  case (1 n)
  show ?case
  proof (cases "n < 10")
    case True
    then show ?thesis using "1.prems" by (subst dec.simps) simp
  next
    case False
    obtain j where k: "k = Suc j" using "1.prems" by (cases k) auto
    have "j > 0" using False "1.prems" k by (cases j) auto
    moreover have "n div 10 < 10 ^ j"
      using "1.prems" k by (simp add: less_mult_imp_div_less mult.commute)
    ultimately have "length (dec (n div 10)) \<le> j" using "1.IH" False by simp
    then show ?thesis using False k by (subst dec.simps) simp
  qed
qed

lemma fmt_04d_length: "n < 10000 \<Longrightarrow> length (fmt_04d n) = 4"
  using dec_length [of 4 n] by (simp add: fmt_04d_def)

lemma fmt_04d_digits: "list_all py_isdigit (fmt_04d n)"
proof -
  have "py_isdigit CHR ''0''" by (simp add: py_isdigit_def)
  then show ?thesis using dec_digits [of n] by (auto simp: fmt_04d_def list_all_iff)
qed

lemma id_shape:
  assumes "pfx \<in> set [''REF'', ''REP'', ''SRV'']" and "length d = 8" and "list_all py_isdigit d"
    and "n < 10000"
  shows "action_id_format (pfx @ ''-'' @ d @ ''-'' @ fmt_04d n)"
  using assms fmt_04d_length [of n] fmt_04d_digits [of n]
  by (auto simp: action_id_format_def)

lemma error_id_shape:
  assumes "length d = 8" and "list_all py_isdigit d"
  shows "error_id_format (''ERR-'' @ d @ ''-0000'')"
  using assms by (simp add: error_id_format_def)

lemma sublist_date: "sublist d (pfx @ ''-'' @ d @ ''-'' @ q)"
  unfolding sublist_def by (rule exI [of _ "pfx @ ''-''"], rule exI [of _ "''-'' @ q"]) simp


lemma today_records_all:
  "\<forall>r \<in> set rs. \<exists>i. dict_get_default r ''id'' (PStr []) = PStr i \<and> sublist d i \<Longrightarrow>
   today_records d rs = Some rs"
  by (induction rs) auto

lemma next_action_id_count:
  "today_count (date_str e) file = Some c \<Longrightarrow>
   next_action_id e pfx file = pfx @ ''-'' @ date_str e @ ''-'' @ fmt_04d (c + 1)"
  by (auto simp: today_count_def next_action_id_def split: ledger_file.splits)

lemma next_action_id_unreadable:
  "today_count (date_str e) file = None \<Longrightarrow>
   next_action_id e pfx file = ''ERR-'' @ date_str e @ ''-0000''"
  by (auto simp: today_count_def next_action_id_def split: ledger_file.splits)

lemma generate_action_id_known:
  "t \<in> set action_types \<Longrightarrow>
   generate_action_id e lg t = next_action_id e (prefix_of t) (ledger_file_of lg t)"
  by (auto simp: action_types_def generate_action_id_def prefix_of_def ledger_file_of_def)

lemma generate_action_id_other:
  "t \<notin> set action_types \<Longrightarrow> generate_action_id e lg t = ''ACTION-'' @ date_str e @ ''-0001''"
  by (auto simp: action_types_def generate_action_id_def)

lemma prefix_of_known: "prefix_of t \<in> set [''REF'', ''REP'', ''SRV'']"
  by (simp add: prefix_of_def)

section \<open>The ledger\<close>





lemma execute_action_known:
  assumes "t \<in> set action_types"
  shows "execute_action e lg t ud =
     (case save_action_data e lg t (action_data_of e t (generate_action_id e lg t) ud) of
        (ok, lg1) \<Rightarrow>
          (Some (Logged t (generate_action_id e lg t) (if ok then ''success'' else ''partial'')
                   (''Action '' @ [CHR 0x27] @ t @ [CHR 0x27] @ '' has been logged with ID: '' @
                    generate_action_id e lg t)
                   (action_data_of e t (generate_action_id e lg t) ud)), lg1))"
proof -
  have "t \<noteq> ''none''" using assms by (auto simp: action_types_def)
  then show ?thesis
    using assms by (simp add: execute_action_def Let_def action_data_of_def action_types_def)
qed





text \<open>
  Claim C5, as amended. With an eight-digit date, a known action type and fewer than
  9999 records of that date in the type's ledger, the generated id has the shape
  \<open>(REF|REP|SRV)-\d{8}-\d{4}\<close> when the ledger can be read, and is the fallback
  \<open>ERR-\<close>date\<open>-0000\<close> when it cannot. For every other action type the id is
  \<open>ACTION-\<close>date\<open>-0001\<close>.
\<close>

theorem generated_id_shape:
  assumes "length (date_str e) = 8" and "list_all py_isdigit (date_str e)"
    and "\<forall>c. today_count (date_str e) (ledger_file_of lg t) = Some c \<longrightarrow> c < 9999"
  shows "(t \<in> set action_types \<longrightarrow>
            (today_count (date_str e) (ledger_file_of lg t) \<noteq> None \<longrightarrow>
               action_id_format (generate_action_id e lg t)) \<and>
            (today_count (date_str e) (ledger_file_of lg t) = None \<longrightarrow>
               generate_action_id e lg t = ''ERR-'' @ date_str e @ ''-0000'' \<and>
               error_id_format (generate_action_id e lg t)))
         \<and> (t \<notin> set action_types \<longrightarrow>
               generate_action_id e lg t = ''ACTION-'' @ date_str e @ ''-0001'')"
proof (cases "t \<in> set action_types")
  case False
  then show ?thesis by (simp add: generate_action_id_other)
next
  case True
  show ?thesis
  proof (cases "today_count (date_str e) (ledger_file_of lg t)")
    case None
    have "error_id_format (''ERR-'' @ date_str e @ ''-0000'')"
      by (rule error_id_shape [OF assms(1,2)])
    then show ?thesis
      using True None
      by (simp only: generate_action_id_known next_action_id_unreadable) simp
  next
    case (Some c)
    then have "c + 1 < 10000" using assms(3) by auto
    then have "action_id_format (prefix_of t @ ''-'' @ date_str e @ ''-'' @ fmt_04d (c + 1))"
      using id_shape [OF prefix_of_known assms(1,2)] by blast
    then show ?thesis
      using True Some by (simp add: generate_action_id_known next_action_id_count)
  qed
qed

theorem generated_id_shape_witness:
  "action_id_format (generate_action_id sample_env empty_ledgers ''initiate_refund'')
   \<and> generate_action_id sample_env (empty_ledgers\<lparr>refunds_json := Corrupt\<rparr>) ''initiate_refund''
       = ''ERR-20251224-0000''"
  using generated_id_shape [of sample_env empty_ledgers "''initiate_refund''"]
        generated_id_shape [of sample_env "empty_ledgers\<lparr>refunds_json := Corrupt\<rparr>"
                               "''initiate_refund''"]
  by (simp add: sample_env_def empty_ledgers_def today_count_def ledger_file_of_def
        action_types_def py_isdigit_def)

lemma full_day_count: "today_records ''20251224'' (map day_record [1..<10000]) =
    Some (map day_record [1..<10000])"
proof (rule today_records_all, rule ballI)
  fix r assume "r \<in> set (map day_record [1..<10000])"
  then obtain n where r: "r = day_record n" by auto
  have "sublist ''20251224'' (''REF'' @ ''-'' @ ''20251224'' @ ''-'' @ fmt_04d n)"
    by (rule sublist_date)
  then show "\<exists>i. dict_get_default r ''id'' (PStr []) = PStr i \<and> sublist ''20251224'' i"
    using r by (simp add: day_record_def dict_get_default_def)
qed

lemma fmt_04d_10000: "fmt_04d 10000 = ''10000''"
  by (simp add: fmt_04d_def dec.simps digit_char_def)

lemma full_day_id:
  "generate_action_id sample_env full_day_ledgers ''initiate_refund'' = ''REF-20251224-10000''"
proof -
  have "date_str sample_env = ''20251224''" by (simp add: sample_env_def)
  then show ?thesis
    using full_day_count fmt_04d_10000
    by (simp add: generate_action_id_def next_action_id_def full_day_ledgers_def
          del: upt_Suc)
qed

text \<open>
  Claim C5 as stated fails on an action type outside the three known ones, for which the
  id is \<open>ACTION-\<close>date\<open>-0001\<close>, and on the 10000th refund of a day, whose sequence has
  five digits.
\<close>

theorem generated_id_shape_counterexample:
  "generate_action_id sample_env empty_ledgers ''cancel_order'' = ''ACTION-20251224-0001''
   \<and> \<not> action_id_format (generate_action_id sample_env empty_ledgers ''cancel_order'')
   \<and> \<not> error_id_format (generate_action_id sample_env empty_ledgers ''cancel_order'')
   \<and> generate_action_id sample_env full_day_ledgers ''initiate_refund'' = ''REF-20251224-10000''
   \<and> \<not> action_id_format (generate_action_id sample_env full_day_ledgers ''initiate_refund'')
   \<and> \<not> error_id_format (generate_action_id sample_env full_day_ledgers ''initiate_refund'')"
proof -
  have "generate_action_id sample_env empty_ledgers ''cancel_order'' = ''ACTION-20251224-0001''"
    by (simp add: generate_action_id_def sample_env_def)
  then show ?thesis
    using full_day_id by (simp add: action_id_format_def error_id_format_def)
qed

subsection \<open>Runs on a well-formed ledger\<close>











section \<open>The session store\<close>

lemma dict_get_set: "dict_get (dict_set d k v) k' = (if k' = k then v else dict_get d k')"
  by (simp add: dict_get_def dict_set_def update_conv')

lemma dict_set_nonempty: "dict_set d k v \<noteq> []"
  by (cases d) (simp_all add: dict_set_def)

lemma set_items_other:
  "k \<notin> fst ` set kvs \<Longrightarrow> dict_get (set_items d kvs) k = dict_get d k"
  by (induction d kvs rule: set_items.induct) (auto simp: dict_get_set)

lemma set_items_last:
  "k \<notin> fst ` set kvs \<Longrightarrow> dict_get (set_items d ((k, v) # kvs)) k = v"
  by (simp add: set_items_other dict_get_set)

lemma set_items_nonempty: "d \<noteq> [] \<Longrightarrow> set_items d kvs \<noteq> []"
  by (induction d kvs rule: set_items.induct) (auto simp: dict_set_nonempty)

lemma get_session_existing: "st sid = Some s \<Longrightarrow> get_session e st sid = (s, st)"
  by (simp add: get_session_def)

lemma get_session_fresh:
  "st sid = None \<Longrightarrow> get_session e st sid = (new_session e sid, st(sid \<mapsto> new_session e sid))"
  by (simp add: get_session_def create_session_def)

lemma update_session_existing:
  "st sid = Some s \<Longrightarrow>
   update_session e st sid k v = st(sid \<mapsto> s\<lparr>slots := dict_set (slots s) k v\<rparr>)"
  by (simp add: update_session_def)

lemma update_session_bulk_existing:
  "st sid = Some s \<Longrightarrow>
   update_session_bulk e st sid data = st(sid \<mapsto> s\<lparr>slots := set_items (slots s) data\<rparr>)"
  by (simp add: update_session_bulk_def)

lemma add_history_existing:
  "st sid = Some s \<Longrightarrow>
   add_to_conversation_history e st sid r m =
     st(sid \<mapsto> s\<lparr>conversation_history :=
          conversation_history s @ [\<lparr>role = r, message = m, timestamp = iso_now e\<rparr>]\<rparr>)"
  by (simp add: add_to_conversation_history_def)

lemma session_get_existing: "st sid = Some s \<Longrightarrow> session_get st sid k = dict_get (slots s) k"
  by (simp add: session_get_def session_ref_def)

lemma session_get_update:
  "st sid = Some s \<Longrightarrow>
   session_get (update_session e st sid k v) sid k' =
     (if k' = k then v else session_get st sid k')"
  by (simp add: update_session_existing session_get_def session_ref_def dict_get_set)

lemma session_get_add_history:
  "st sid = Some s \<Longrightarrow>
   session_get (add_to_conversation_history e st sid r m) sid k = session_get st sid k"
  by (simp add: add_history_existing session_get_def session_ref_def)

lemma session_get_mark:
  "k \<notin> set [''action_id'', ''action_type'', ''conversation_state''] \<Longrightarrow>
   session_get (mark_action_completed st sid aid atype) sid k = session_get st sid k"
  by (auto simp: mark_action_completed_def session_get_def session_ref_def dict_get_set
        split: option.splits)

lemma get_session_context_store:
  "st sid = Some s \<Longrightarrow> snd (get_session_context e st sid) = st"
  by (simp add: get_session_context_def get_session_existing Let_def)

lemma check_missing_info_store:
  "st sid = Some s \<Longrightarrow> snd (check_missing_info_for_action e st sid t) = st"
  by (simp add: check_missing_info_for_action_def get_session_existing)

lemma check_missing_info_existing:
  "st sid = Some s \<Longrightarrow> slots s \<noteq> [] \<Longrightarrow>
   check_missing_info_for_action e st sid t = (check_missing s t, st)"
  by (simp add: check_missing_info_for_action_def get_session_existing)

text \<open>Each stage keeps a live session in the store.\<close>

lemma liveE: "live st sid \<Longrightarrow> (\<And>s. st sid = Some s \<Longrightarrow> slots s \<noteq> [] \<Longrightarrow> P) \<Longrightarrow> P"
  by (cases "st sid") (simp_all add: live_def)

lemma liveI: "st sid = Some s \<Longrightarrow> slots s \<noteq> [] \<Longrightarrow> live st sid"
  by (simp add: live_def)

lemma new_session_nonempty: "slots (new_session e sid) \<noteq> []"
  by (simp add: new_session_def)

lemma get_session_live:
  "st sid = None \<or> live st sid \<Longrightarrow> live (snd (get_session e st sid)) sid"
  by (cases "st sid")
     (simp_all add: get_session_fresh get_session_existing new_session_nonempty live_def)

lemma add_history_live:
  "live st sid \<Longrightarrow> live (add_to_conversation_history e st sid r m) sid"
  by (erule liveE) (simp add: add_history_existing live_def)

lemma link_order_live: "live st sid \<Longrightarrow> live (link_order e st sid msg) sid"
  by (erule liveE)
     (auto simp: link_order_def update_session_bulk_existing set_items_nonempty live_def
        split: option.splits)

lemma capture_reason_live: "live st sid \<Longrightarrow> live (capture_reason e st sid msg) sid"
  by (erule liveE) (simp add: capture_reason_def update_session_existing dict_set_nonempty live_def)

lemma capture_datetime_live: "live st sid \<Longrightarrow> live (capture_datetime e st sid msg) sid"
  by (erule liveE)
     (simp add: capture_datetime_def update_session_existing dict_set_nonempty live_def)

lemma store_after_capture_live:
  "st sid = None \<or> live st sid \<Longrightarrow> live (store_after_capture e st sid msg) sid"
  unfolding store_after_capture_def
  by (intro capture_datetime_live capture_reason_live link_order_live add_history_live
        get_session_live)

lemma mark_action_completed_live:
  "live st sid \<Longrightarrow> live (mark_action_completed st sid aid atype) sid"
  by (erule liveE) (simp add: mark_action_completed_def dict_set_nonempty live_def)

section \<open>The pipeline, stage by stage\<close>

lemma action_agent_resolved: "action_agent (intent_agent e msg) v = resolved_action e msg"
  by (simp add: action_agent_def resolved_action_def)

lemma pipeline_stages:
  "pipeline e w msg sid =
     (case run_action e (world_before_action e w msg sid) sid (resolved_action e msg)
             (fst (response_before_action e w msg sid)) of
        (final_response, final_action, action_result, w7) \<Rightarrow>
          (\<lparr>answer = final_response,
            intent = intent_agent e msg,
            rag_sources = take 500 (retrieval_agent e msg),
            action = final_action,
            action_confirmation =
              (if resolved_action e msg \<noteq> ''none''
               then action_confirmation_agent e (resolved_action e msg) else None),
            action_log = action_result,
            session_id = sid\<rparr>,
           w7\<lparr>SESSION_STATE :=
                add_to_conversation_history e (SESSION_STATE w7) sid ''assistant''
                  final_response\<rparr>))"
  unfolding pipeline_def Let_def store_after_capture_def world_before_action_def
    response_before_action_def action_agent_resolved
  by (simp split: prod.splits)

lemma world_before_action_store:
  assumes "SESSION_STATE w sid = None \<or> live (SESSION_STATE w) sid"
  shows "SESSION_STATE (world_before_action e w msg sid) =
           store_after_capture e (SESSION_STATE w) sid msg"
proof -
  have "live (store_after_capture e (SESSION_STATE w) sid msg) sid"
    using store_after_capture_live [OF assms] .
  then show ?thesis
    by (elim liveE) (simp add: world_before_action_def get_session_context_store)
qed

lemma world_before_action_ledger: "ledger (world_before_action e w msg sid) = ledger w"
  by (simp add: world_before_action_def)

lemma run_action_incomplete:
  assumes "act \<noteq> ''none''"
    and "\<not> complete (fst (check_missing_info_for_action e (SESSION_STATE w) sid act))"
  shows "run_action e w sid act v =
           (prompt (fst (check_missing_info_for_action e (SESSION_STATE w) sid act)), ''none'',
            None,
            w\<lparr>SESSION_STATE := snd (check_missing_info_for_action e (SESSION_STATE w) sid act)\<rparr>)"
proof -
  obtain info st1 where c: "check_missing_info_for_action e (SESSION_STATE w) sid act = (info, st1)"
    by (cases "check_missing_info_for_action e (SESSION_STATE w) sid act")
  then show ?thesis using assms by (simp add: run_action_def)
qed

lemma pipeline_incomplete:
  assumes wf: "SESSION_STATE w sid = None \<or> live (SESSION_STATE w) sid"
    and act: "resolved_action e msg \<noteq> ''none''"
    and inc: "\<not> complete (fst (check_missing_info_for_action e
                 (store_after_capture e (SESSION_STATE w) sid msg) sid (resolved_action e msg)))"
  shows "pipeline e w msg sid =
     (\<lparr>answer = prompt (fst (check_missing_info_for_action e
                 (store_after_capture e (SESSION_STATE w) sid msg) sid (resolved_action e msg))),
       intent = intent_agent e msg,
       rag_sources = take 500 (retrieval_agent e msg),
       action = ''none'',
       action_confirmation = action_confirmation_agent e (resolved_action e msg),
       action_log = None,
       session_id = sid\<rparr>,
      (world_before_action e w msg sid)\<lparr>SESSION_STATE :=
         add_to_conversation_history e (store_after_capture e (SESSION_STATE w) sid msg) sid
           ''assistant''
           (prompt (fst (check_missing_info_for_action e
                 (store_after_capture e (SESSION_STATE w) sid msg) sid
                 (resolved_action e msg))))\<rparr>)"
proof -
  let ?st = "store_after_capture e (SESSION_STATE w) sid msg"
  let ?wb = "world_before_action e w msg sid"
  have st: "SESSION_STATE ?wb = ?st" using world_before_action_store [OF wf] .
  have live: "live ?st sid" using store_after_capture_live [OF wf] .
  have keep: "snd (check_missing_info_for_action e ?st sid (resolved_action e msg)) = ?st"
    using live by (elim liveE) (simp add: check_missing_info_store)
  have inc': "\<not> complete (fst (check_missing_info_for_action e (SESSION_STATE ?wb) sid
                 (resolved_action e msg)))"
    using inc st by simp
  show ?thesis
    unfolding pipeline_stages run_action_incomplete [OF act inc']
    using act st keep by simp
qed

section \<open>Incomplete information\<close>

lemma respond_calls: "set (snd (respond e s i ctx msg sc)) \<subseteq> {Responder_agent, Verifier_agent}"
  by (simp add: respond_def Let_def)

lemma no_execute_before_action:
  "Execute_action \<notin> set (drop (length (agent_calls w))
                            (agent_calls (world_before_action e w msg sid)))"
proof -
  have "Execute_action \<notin> set (snd (response_before_action e w msg sid))"
    unfolding response_before_action_def
    using respond_calls by (fastforce split: prod.splits)
  then show ?thesis by (simp add: world_before_action_def)
qed

lemma refund_without_reason:
  assumes "st sid = Some s" and "slots s \<noteq> []"
    and "truthy (session_get st sid ''order_id'')"
    and "\<not> truthy (session_get st sid ''reason_for_action'')"
  shows "check_missing_info_for_action e st sid ''initiate_refund'' =
           (\<lparr>missing = [''reason_for_action''], complete = False,
             prompt = refund_reason_prompt\<rparr>, st)"
  using assms
  by (simp add: check_missing_info_existing check_missing_def session_get_existing)

section \<open>Top-level failure\<close>






section \<open>Slot capture\<close>

lemma capture_reason_order:
  "live st sid \<Longrightarrow>
   session_get (capture_reason e st sid msg) sid k =
     (if k = ''reason_for_action'' \<and> truthy (session_get st sid ''order_id'') \<and>
         \<not> truthy (session_get st sid ''reason_for_action'') \<and> 10 < length msg \<and>
         \<not> suffix ''?'' (py_strip msg)
      then PStr (py_strip msg) else session_get st sid k)"
  by (erule liveE) (simp add: capture_reason_def session_get_update)

lemma capture_datetime_order:
  "live st sid \<Longrightarrow>
   session_get (capture_datetime e st sid msg) sid k =
     (if k = ''preferred_datetime'' \<and> truthy (session_get st sid ''order_id'') \<and>
         \<not> truthy (session_get st sid ''preferred_datetime'') \<and> mentions_datetime msg
      then PStr (py_strip msg) else session_get st sid k)"
  by (erule liveE) (simp add: capture_datetime_def session_get_update mentions_datetime_def)

text \<open>
  Claim C7, as amended. Let \<open>order_id\<close> be set in the session when the capture step
  runs. If \<open>reason_for_action\<close> is empty, the message is longer than 10 characters and
  the stripped message does not end in \<open>?\<close>, the stripped message becomes
  \<open>reason_for_action\<close>; otherwise \<open>reason_for_action\<close> keeps its value. If
  \<open>preferred_datetime\<close> is empty and the lower-cased message contains one of the
  keywords \<open>tomorrow\<close>, \<open>monday\<close> to \<open>sunday\<close>, \<open>next week\<close>, \<open>pm\<close>, \<open>am\<close>,
  \<open>december\<close>, \<open>january\<close>, the stripped message becomes \<open>preferred_datetime\<close>;
  otherwise \<open>preferred_datetime\<close> keeps its value. Both steps are total functions of
  the store and the message.
\<close>

theorem slot_capture:
  assumes "live st sid"
  shows "session_get (capture_datetime e (capture_reason e st sid msg) sid msg) sid
           ''reason_for_action'' =
           (if truthy (session_get st sid ''order_id'') \<and>
               \<not> truthy (session_get st sid ''reason_for_action'') \<and> 10 < length msg \<and>
               \<not> suffix ''?'' (py_strip msg)
            then PStr (py_strip msg) else session_get st sid ''reason_for_action'')
       \<and> session_get (capture_datetime e (capture_reason e st sid msg) sid msg) sid
           ''preferred_datetime'' =
           (if truthy (session_get st sid ''order_id'') \<and>
               \<not> truthy (session_get st sid ''preferred_datetime'') \<and> mentions_datetime msg
            then PStr (py_strip msg) else session_get st sid ''preferred_datetime'')"
  by (simp add: capture_datetime_order [OF capture_reason_live [OF assms]]
        capture_reason_order [OF assms])

lemma linked_store_session: "live linked_store ''s1''"
  by (simp add: linked_store_def live_def linked_session_def)

lemma linked_store_slots:
  "session_get linked_store ''s1'' ''order_id'' = PStr ''ORD201''"
  "session_get linked_store ''s1'' ''reason_for_action'' = PNone"
  "session_get linked_store ''s1'' ''preferred_datetime'' = PNone"
  by (simp_all add: linked_store_def session_get_def session_ref_def linked_session_def
        dict_get_def)

theorem slot_capture_witness:
  "session_get (capture_datetime sample_env
                  (capture_reason sample_env linked_store ''s1'' ''it broke on Monday '')
                  ''s1'' ''it broke on Monday '') ''s1'' ''reason_for_action''
     = PStr ''it broke on Monday''
   \<and> session_get (capture_datetime sample_env
                  (capture_reason sample_env linked_store ''s1'' ''it broke on Monday '')
                  ''s1'' ''it broke on Monday '') ''s1'' ''preferred_datetime''
     = PStr ''it broke on Monday''"
  using slot_capture [OF linked_store_session, of sample_env "''it broke on Monday ''"]
  by (simp add: linked_store_slots py_strip_def py_isspace_def mentions_datetime_def
        datetime_keywords_def py_lower_def lower_char_def lower_table_def upper_letters_def
        lower_letters_def sublist_Cons_right suffix_to_prefix)

text \<open>
  Claim C7 as stated fails in three ways: the text stored is the stripped message, not
  the message itself; a message whose question mark is followed by white space is not
  stored although it does not end in \<open>?\<close>; and a month name other than December and
  January is not a keyword.
\<close>

theorem slot_capture_counterexample:
  "session_get (capture_reason sample_env linked_store ''s1'' ''  it stopped working  '') ''s1''
     ''reason_for_action'' = PStr ''it stopped working''
   \<and> PStr ''it stopped working'' \<noteq> PStr ''  it stopped working  ''
   \<and> session_get (capture_reason sample_env linked_store ''s1'' ''is it broken now? '') ''s1''
     ''reason_for_action'' = PNone
   \<and> \<not> suffix ''?'' ''is it broken now? ''
   \<and> session_get (capture_datetime sample_env linked_store ''s1'' ''in march'') ''s1''
     ''preferred_datetime'' = PNone"
  by (simp add: capture_reason_order [OF linked_store_session]
        capture_datetime_order [OF linked_store_session] linked_store_slots
        py_strip_def py_isspace_def mentions_datetime_def datetime_keywords_def py_lower_def
        lower_char_def lower_table_def upper_letters_def lower_letters_def sublist_Cons_right
        suffix_to_prefix)

text \<open>White space above U+007F is stripped as well: a no-break space after the question mark.\<close>

lemma question_then_no_break_space:
  "session_get (capture_reason sample_env linked_store ''s1''
      (''ORD201 is broken?'' @ [CHR 0xA0])) ''s1'' ''reason_for_action'' = PNone"
  by (simp add: capture_reason_order [OF linked_store_session] linked_store_slots
        py_strip_def py_isspace_def suffix_to_prefix)

section \<open>The first message of a session\<close>

lemma normalize_prefix: "prefix ''ORD'' (normalize_order_id x)"
  by (simp add: normalize_order_id_def Let_def)

lemma first_match_prefix: "first_match ps m = Some oid \<Longrightarrow> prefix ''ORD'' oid"
  by (induction ps) (auto simp: normalize_prefix split: option.splits)

lemma extracted_prefix: "extract_order_id_from_message m = Some oid \<Longrightarrow> prefix ''ORD'' oid"
  unfolding extract_order_id_from_message_def by (rule first_match_prefix)

lemma strip_keeps_ord:
  assumes "prefix ''ORD'' oid"
  shows "py_strip oid \<noteq> []"
proof -
  obtain r where oid: "oid = ''ORD'' @ r" using assms by (auto simp: prefix_def)
  have o: "\<not> py_isspace CHR ''O''" by (simp add: py_isspace_def)
  have "dropWhile py_isspace oid = oid" using oid o by simp
  moreover have "dropWhile py_isspace (rev oid) \<noteq> []"
    using oid o by (auto simp: dropWhile_eq_Nil_conv)
  ultimately show ?thesis by (simp add: py_strip_def)
qed

lemma upper_char_nonempty: "upper_char c \<noteq> []"
proof (cases "map_of upper_table c")
  case None
  then show ?thesis by (simp add: upper_char_def)
next
  case (Some d)
  have "\<forall>(k, v) \<in> set upper_table. v \<noteq> []"
    by (simp add: upper_table_def upper_letters_def lower_letters_def)
  then have "d \<noteq> []" using map_of_SomeD [OF Some] by blast
  then show ?thesis using Some by (simp add: upper_char_def)
qed

lemma py_upper_nonempty: "(py_upper s = []) = (s = [])"
  by (cases s) (simp_all add: py_upper_def upper_char_nonempty)

lemma find_order_found:
  "find_order x os = Some order \<Longrightarrow>
   \<exists>v. dict_get_default order ''order_id'' (PStr []) = PStr v \<and> py_upper v = x"
  by (induction os) (auto split: pyval.splits if_splits)

lemma found_order_truthy:
  assumes "find_order x os = Some order" and "x \<noteq> []"
  shows "truthy (dict_get order ''order_id'') \<and> order \<noteq> []"
proof -
  obtain v where v: "dict_get_default order ''order_id'' (PStr []) = PStr v" "py_upper v = x"
    using find_order_found [OF assms(1)] by blast
  have "v \<noteq> []" using v(2) assms(2) py_upper_nonempty by blast
  then have "map_of order ''order_id'' = Some (PStr v)"
    using v(1) by (auto simp: dict_get_default_def split: option.splits)
  then show ?thesis using \<open>v \<noteq> []\<close> by (auto simp: dict_get_def)
qed

lemma link_order_found:
  assumes live: "live st sid"
    and ex: "extract_order_id_from_message msg = Some oid"
    and found: "get_order_by_id e oid = Some order"
  shows "truthy (session_get (link_order e st sid msg) sid ''order_id'')
       \<and> session_get (link_order e st sid msg) sid ''reason_for_action'' =
           session_get st sid ''reason_for_action''"
proof -
  have p: "prefix ''ORD'' oid" using ex by (rule extracted_prefix)
  then have ne: "oid \<noteq> []" by auto
  have "py_upper (py_strip oid) \<noteq> []"
    using strip_keeps_ord [OF p] py_upper_nonempty by blast
  then have t: "truthy (dict_get order ''order_id'')" "order \<noteq> []"
    using found found_order_truthy unfolding get_order_by_id_def by blast+
  show ?thesis
    using live
  proof (rule liveE)
    fix s assume s: "st sid = Some s"
    have "link_order e st sid msg =
            st(sid \<mapsto> s\<lparr>slots := set_items (slots s)
                                     (map (\<lambda>k. (k, dict_get order k)) order_keys)\<rparr>)"
      using ex found ne t(2) s by (simp add: link_order_def update_session_bulk_existing)
    then show ?thesis
      using t(1) s
      by (simp add: session_get_def session_ref_def order_keys_def dict_get_set)
  qed
qed

lemma fresh_reason:
  "st sid = None \<Longrightarrow>
   session_get (add_to_conversation_history e (snd (get_session e st sid)) sid r m) sid
     ''reason_for_action'' = PNone"
  by (simp add: get_session_fresh add_history_existing session_get_def session_ref_def
        new_session_def dict_get_def)

lemma run_action_frame:
  assumes "live (SESSION_STATE w) sid"
    and "k \<notin> set [''action_id'', ''action_type'', ''conversation_state'']"
  shows "session_get (SESSION_STATE (snd (snd (snd (run_action e w sid act v))))) sid k =
           session_get (SESSION_STATE w) sid k
         \<and> live (SESSION_STATE (snd (snd (snd (run_action e w sid act v))))) sid"
proof -
  have keep: "snd (check_missing_info_for_action e (SESSION_STATE w) sid act) = SESSION_STATE w"
    using assms(1) by (elim liveE) (simp add: check_missing_info_store)
  obtain info where c:
    "check_missing_info_for_action e (SESSION_STATE w) sid act = (info, SESSION_STATE w)"
    using keep by (cases "check_missing_info_for_action e (SESSION_STATE w) sid act") simp
  obtain ar lg1 where x:
    "execute_action e (ledger w) act (Some (user_details_of (session_ref (SESSION_STATE w) sid)))
       = (ar, lg1)"
    by (cases "execute_action e (ledger w) act
                 (Some (user_details_of (session_ref (SESSION_STATE w) sid)))")
  show ?thesis
    using assms c x session_get_mark [OF assms(2)] mark_action_completed_live [OF assms(1)]
    by (auto simp: run_action_def Let_def split: option.splits action_result.splits)
qed

lemma pipeline_frame:
  assumes wf: "SESSION_STATE w sid = None \<or> live (SESSION_STATE w) sid"
    and k: "k \<notin> set [''action_id'', ''action_type'', ''conversation_state'']"
  shows "session_get (SESSION_STATE (snd (pipeline e w msg sid))) sid k =
           session_get (store_after_capture e (SESSION_STATE w) sid msg) sid k"
proof -
  let ?wb = "world_before_action e w msg sid"
  let ?run = "run_action e ?wb sid (resolved_action e msg) (fst (response_before_action e w msg sid))"
  have st: "SESSION_STATE ?wb = store_after_capture e (SESSION_STATE w) sid msg"
    using world_before_action_store [OF wf] .
  have live: "live (SESSION_STATE ?wb) sid"
    unfolding st using store_after_capture_live [OF wf] .
  have frame: "session_get (SESSION_STATE (snd (snd (snd ?run)))) sid k =
                 session_get (SESSION_STATE ?wb) sid k"
      "live (SESSION_STATE (snd (snd (snd ?run)))) sid"
    using run_action_frame [OF live k] by blast+
  obtain a b c w7 where r: "?run = (a, b, c, w7)" by (cases ?run) auto
  have "session_get (add_to_conversation_history e (SESSION_STATE w7) sid ''assistant'' a) sid k =
          session_get (SESSION_STATE w7) sid k"
    using frame(2) r by (elim liveE) (simp add: session_get_add_history)
  then show ?thesis
    unfolding pipeline_stages using r frame(1) st by simp
qed

lemma first_message_reason:
  assumes fresh: "SESSION_STATE w sid = None"
  shows "session_get (SESSION_STATE (snd (pipeline e w msg sid))) sid ''reason_for_action'' =
     (if truthy (session_get
                  (link_order e (add_to_conversation_history e
                                   (snd (get_session e (SESSION_STATE w) sid)) sid ''user'' msg)
                     sid msg) sid ''order_id'') \<and>
         \<not> truthy (session_get
                  (link_order e (add_to_conversation_history e
                                   (snd (get_session e (SESSION_STATE w) sid)) sid ''user'' msg)
                     sid msg) sid ''reason_for_action'') \<and>
         10 < length msg \<and> \<not> suffix ''?'' (py_strip msg)
      then PStr (py_strip msg)
      else session_get
             (link_order e (add_to_conversation_history e
                              (snd (get_session e (SESSION_STATE w) sid)) sid ''user'' msg)
                sid msg) sid ''reason_for_action'')"
proof -
  let ?st2 = "add_to_conversation_history e (snd (get_session e (SESSION_STATE w) sid)) sid
                ''user'' msg"
  let ?st3 = "link_order e ?st2 sid msg"
  have wf: "SESSION_STATE w sid = None \<or> live (SESSION_STATE w) sid" using fresh by simp
  have l3: "live ?st3 sid"
    by (intro link_order_live add_history_live get_session_live wf)
  have "session_get (store_after_capture e (SESSION_STATE w) sid msg) sid ''reason_for_action'' =
          session_get (capture_reason e ?st3 sid msg) sid ''reason_for_action''"
    unfolding store_after_capture_def
    by (simp add: capture_datetime_order [OF capture_reason_live [OF l3]])
  then show ?thesis
    by (simp add: pipeline_frame [OF wf] capture_reason_order [OF l3])
qed

section \<open>Order extraction\<close>

subsection \<open>Matching in general\<close>

lemma rx_match_suffix: "(r, g) \<in> set (rx_match p s) \<Longrightarrow> suffix r s"
proof (induction p arbitrary: s r g)
  case (Cls q)
  then show ?case by (cases s) (auto simp: suffix_Cons split: if_splits)
next
  case (Cat a b)
  then obtain s1 g1 g2 where "(s1, g1) \<in> set (rx_match a s)" "(r, g2) \<in> set (rx_match b s1)"
    by auto
  then show ?case using Cat.IH suffix_order.trans by blast
next
  case (Star q)
  then show ?case by (auto simp: suffix_drop)
next
  case (Plus q)
  then show ?case by (auto simp: suffix_drop)
qed auto

lemma re_search_None: "(re_search p s = None) = (\<forall>t. suffix t s \<longrightarrow> rx_match p t = [])"
proof (induction s)
  case Nil
  then show ?case by (auto split: list.splits)
next
  case (Cons c cs)
  show ?case
  proof (cases "rx_match p (c # cs)")
    case Nil
    then show ?thesis using Cons by (auto simp: suffix_Cons)
  next
    case (Cons x xs)
    then show ?thesis by (auto split: prod.splits)
  qed
qed

lemma re_search_Some:
  "re_search p s = Some (g0, g) \<Longrightarrow> \<exists>t r. suffix t s \<and> (r, g) \<in> set (rx_match p t)"
proof (induction s)
  case Nil
  then show ?case by (auto split: list.splits)
next
  case (Cons c cs)
  show ?case
  proof (cases "rx_match p (c # cs)")
    case Nil
    then have "re_search p cs = Some (g0, g)" using Cons.prems by simp
    then show ?thesis using Cons.IH by (auto simp: suffix_Cons)
  next
    case (Cons x xs)
    obtain r g' where x: "x = (r, g')" by (cases x)
    then have "g' = g" using Cons Cons.prems by simp
    then have "(r, g) \<in> set (rx_match p (c # cs))" using Cons x by simp
    then show ?thesis using suffix_order.refl by blast
  qed
qed

lemma cat_empty:
  "(rx_match (Cat a b) s = []) = (\<forall>(s1, g1) \<in> set (rx_match a s). rx_match b s1 = [])"
  by (auto simp: concat_eq_Nil_conv)

lemma cat_tail:
  assumes "rx_match (Cat a b) s \<noteq> []"
  shows "\<exists>t. suffix t s \<and> rx_match b t \<noteq> []"
proof -
  obtain s1 g1 where "(s1, g1) \<in> set (rx_match a s)" "rx_match b s1 \<noteq> []"
    using assms by (auto simp: cat_empty)
  then show ?thesis using rx_match_suffix by blast
qed

lemma cat_group:
  assumes "(r, g) \<in> set (rx_match (Cat a b) s)"
    and "\<And>s' r' g'. (r', g') \<in> set (rx_match b s') \<Longrightarrow> \<exists>x. g' = Some x \<and> P x"
  shows "\<exists>x. g = Some x \<and> P x"
proof -
  obtain s1 g1 g2 where m: "(r, g2) \<in> set (rx_match b s1)"
      "g = (case g2 of None \<Rightarrow> g1 | Some x \<Rightarrow> Some x)"
    using assms(1) by auto
  obtain x where "g2 = Some x" "P x" using assms(2) [OF m(1)] by blast
  then show ?thesis using m(2) by simp
qed

subsection \<open>The patterns of \<open>extract_order_id_from_message\<close>\<close>

lemma digit_facts_all:
  "\<forall>c \<in> set ''0123456789''.
     c \<noteq> CHR '' '' \<and> c \<noteq> CHR ''-'' \<and> c \<noteq> CHR ''O'' \<and> upper_char c = [c] \<and>
     \<not> sep_class c"
  by (simp add: upper_char_def upper_table_def upper_letters_def lower_letters_def sep_class_def
        py_isspace_def)

lemma digit_facts:
  assumes "py_isdigit c"
  shows "c \<noteq> CHR '' ''" and "c \<noteq> CHR ''-''" and "c \<noteq> CHR ''O''" and "upper_char c = [c]"
    and "\<not> sep_class c"
  using assms digit_facts_all unfolding py_isdigit_def by blast+

lemma digits_group:
  assumes "(r, g) \<in> set (rx_match (Grp (Plus py_isdigit)) s)"
  shows "\<exists>ds. g = Some ds \<and> ds \<noteq> [] \<and> list_all py_isdigit ds"
proof -
  let ?n = "length (takeWhile py_isdigit s)"
  obtain k where k: "1 \<le> k" "k \<le> ?n" "g = Some (take (length s - length (drop k s)) s)"
    using assms by auto
  have le: "k \<le> length s" using k(2) length_takeWhile_le [of py_isdigit s] by linarith
  then have g: "g = Some (take k s)" using k(3) by simp
  have "take k s = take k (takeWhile py_isdigit s @ dropWhile py_isdigit s)" by simp
  also have "\<dots> = take k (takeWhile py_isdigit s)"
    using k(2) by (simp del: takeWhile_dropWhile_id)
  finally have "take k s = take k (takeWhile py_isdigit s)" .
  then have "set (take k s) \<subseteq> set (takeWhile py_isdigit s)" by (metis set_take_subset)
  then have "list_all py_isdigit (take k s)"
    by (auto simp: list_all_iff dest: set_takeWhileD)
  moreover have "take k s \<noteq> []" using k(1) le by (cases s) auto
  ultimately show ?thesis using g by blast
qed

lemma pattern1_group:
  assumes "(r, g) \<in> set (rx_match pattern1 s)"
  shows "\<exists>ds. g = Some ds \<and> ds \<noteq> [] \<and> list_all py_isdigit ds"
proof -
  have inner: "\<exists>ds. g' = Some ds \<and> ds \<noteq> [] \<and> list_all py_isdigit ds"
    if "(r', g') \<in> set (rx_match (Cat (Opt (Cls sep_class)) (Grp (Plus py_isdigit))) s')"
    for s' r' g'
    using cat_group [OF that, of "\<lambda>ds. ds \<noteq> [] \<and> list_all py_isdigit ds"] digits_group
    by blast
  show ?thesis
    using cat_group [OF assms [unfolded pattern1_def],
        of "\<lambda>ds. ds \<noteq> [] \<and> list_all py_isdigit ds"] inner
    by blast
qed

lemma normalize_digits:
  assumes "ds \<noteq> []" and "list_all py_isdigit ds"
  shows "normalize_order_id ds = ''ORD'' @ ds"
proof -
  have d: "\<forall>c \<in> set ds. py_isdigit c" using assms(2) by (simp add: list_all_iff)
  have "remove_char CHR '' '' ds = ds"
    unfolding remove_char_def using d digit_facts(1) by (auto simp: filter_id_conv)
  moreover have "remove_char CHR ''-'' ds = ds"
    unfolding remove_char_def using d digit_facts(2) by (auto simp: filter_id_conv)
  moreover have "py_upper ds = ds"
  proof -
    have "map upper_char ds = map (\<lambda>c. [c]) ds" using d digit_facts(4) by simp
    then have "concat (map upper_char ds) = concat (map (\<lambda>c. [c]) ds)" by (rule arg_cong)
    then show ?thesis by (simp add: py_upper_def)
  qed
  moreover have "\<not> prefix ''ORD'' ds"
    using assms(1) d digit_facts(3) by (cases ds) auto
  ultimately show ?thesis by (simp add: normalize_order_id_def)
qed

lemma pattern1_on_normal:
  assumes "ds \<noteq> []" and "list_all py_isdigit ds"
  shows "\<exists>rest. rx_match pattern1 (''ORD'' @ ds) = ([], Some ds) # rest"
proof -
  obtain d ds' where ds: "ds = d # ds'" using assms(1) by (cases ds) auto
  have d: "py_isdigit d" using assms(2) ds by simp
  have all: "takeWhile py_isdigit ds = ds"
    using assms(2) by (simp add: list_all_iff)
  have opt: "rx_match (Opt (Cls sep_class)) ds = [(ds, None)]"
    using ds digit_facts(5) [OF d] by simp
  have up: "rev [1..<Suc (length ds)] = length ds # rev [1..<length ds]"
    using ds by simp
  have plus0: "rx_match (Plus py_isdigit) ds =
          map (\<lambda>k. (drop k ds, None)) (rev [1..<Suc (length (takeWhile py_isdigit ds))])"
    by (rule rx_match.simps)
  have plus: "rx_match (Plus py_isdigit) ds =
          ([], None) # map (\<lambda>k. (drop k ds, None)) (rev [1..<length ds])"
    by (simp only: plus0 all up list.map drop_all order_refl)
  have grp0: "rx_match (Grp (Plus py_isdigit)) ds =
          map (\<lambda>(s1, g1). (s1, Some (take (length ds - length s1) ds)))
              (rx_match (Plus py_isdigit) ds)"
    by (rule rx_match.simps)
  have grp: "\<exists>rest. rx_match (Grp (Plus py_isdigit)) ds = ([], Some ds) # rest"
    by (simp add: grp0 plus del: rx_match.simps)
  have cat0: "rx_match (Cat (Opt (Cls sep_class)) (Grp (Plus py_isdigit))) ds =
     concat (map (\<lambda>(s1, g1). map (\<lambda>(s2, g2). (s2, case g2 of None \<Rightarrow> g1 | Some g \<Rightarrow> Some g))
                                  (rx_match (Grp (Plus py_isdigit)) s1))
                 (rx_match (Opt (Cls sep_class)) ds))"
    by (rule rx_match.simps)
  have tail: "\<exists>rest. rx_match (Cat (Opt (Cls sep_class)) (Grp (Plus py_isdigit))) ds =
                 ([], Some ds) # rest"
  proof -
    obtain rest0 where g: "rx_match (Grp (Plus py_isdigit)) ds = ([], Some ds) # rest0"
      using grp by blast
    show ?thesis by (simp add: cat0 opt g del: rx_match.simps)
  qed
  have lit: "rx_match (lit_i ''ORD'') (''ORD'' @ ds) = [(ds, None)]"
    by (simp add: chr_i_def)
  have cat1: "rx_match pattern1 (''ORD'' @ ds) =
     concat (map (\<lambda>(s1, g1). map (\<lambda>(s2, g2). (s2, case g2 of None \<Rightarrow> g1 | Some g \<Rightarrow> Some g))
                    (rx_match (Cat (Opt (Cls sep_class)) (Grp (Plus py_isdigit))) s1))
                 (rx_match (lit_i ''ORD'') (''ORD'' @ ds)))"
    unfolding pattern1_def by (rule rx_match.simps)
  obtain rest1 where t:
    "rx_match (Cat (Opt (Cls sep_class)) (Grp (Plus py_isdigit))) ds = ([], Some ds) # rest1"
    using tail by blast
  show ?thesis
    by (subst cat1, subst lit) (simp add: t del: rx_match.simps)
qed

lemma search_normal:
  assumes "ds \<noteq> []" and "list_all py_isdigit ds"
  shows "re_search pattern1 (''ORD'' @ ds) = Some (''ORD'' @ ds, Some ds)"
proof -
  obtain rest where m: "rx_match pattern1 (''ORD'' @ ds) = ([], Some ds) # rest"
    using pattern1_on_normal [OF assms] by blast
  have "re_search pattern1 (CHR ''O'' # ''RD'' @ ds) = Some (CHR ''O'' # ''RD'' @ ds, Some ds)"
    unfolding re_search.simps using m by simp
  then show ?thesis by simp
qed

lemma extract_normal:
  assumes "ds \<noteq> []" and "list_all py_isdigit ds"
  shows "extract_order_id_from_message (''ORD'' @ ds) = Some (''ORD'' @ ds)"
  unfolding extract_order_id_from_message_def patterns_def first_match.simps
    search_normal [OF assms]
  by (simp add: matched_text_def normalize_digits [OF assms])

lemma foldr_cat_tail:
  "rx_match (foldr Cat as b) s \<noteq> [] \<Longrightarrow> \<exists>t. suffix t s \<and> rx_match b t \<noteq> []"
proof (induction as arbitrary: s)
  case Nil
  then show ?case using suffix_order.refl by auto
next
  case (Cons a as)
  then have "rx_match (Cat a (foldr Cat as b)) s \<noteq> []" by simp
  then obtain t where t: "suffix t s" "rx_match (foldr Cat as b) t \<noteq> []"
    using cat_tail by blast
  then obtain u where "suffix u t" "rx_match b u \<noteq> []" using Cons.IH by blast
  then show ?case using t(1) suffix_order.trans by blast
qed

lemma grp_empty: "(rx_match (Grp a) s = []) = (rx_match a s = [])"
  by simp

lemma core_empty:
  "(rx_match (Cat (lit_i ''ORD'') (Cat (Opt (Cls sep_class)) (Plus py_isdigit))) s = []) =
   (rx_match pattern1 s = [])"
  by (simp only: pattern1_def cat_empty grp_empty)

lemma pattern2_tail:
  "pattern2 = foldr Cat
     [lit_i ''order'', Star py_isspace,
      Opt (Alt (lit_i ''id'') (Alt (lit_i ''number'') (chr_i CHR ''#''))),
      Star py_isspace, Opt (chr_i CHR '':''), Star py_isspace]
     (Grp (Cat (lit_i ''ORD'') (Cat (Opt (Cls sep_class)) (Plus py_isdigit))))"
  by (simp add: pattern2_def del: lit_i.simps)

lemma pattern3_tail:
  "pattern3 = foldr Cat
     [lit_i ''my'', Star py_isspace, lit_i ''order'', Star py_isspace,
      Opt (Alt (lit_i ''is'') (lit_i ''id'')), Star py_isspace]
     (Grp (Cat (lit_i ''ORD'') (Cat (Opt (Cls sep_class)) (Plus py_isdigit))))"
  by (simp add: pattern3_def del: lit_i.simps)

lemma later_patterns_need_first:
  assumes "p = pattern2 \<or> p = pattern3" and "rx_match p s \<noteq> []"
  shows "\<exists>t. suffix t s \<and> rx_match pattern1 t \<noteq> []"
proof -
  obtain as where "p = foldr Cat as
      (Grp (Cat (lit_i ''ORD'') (Cat (Opt (Cls sep_class)) (Plus py_isdigit))))"
    using assms(1) pattern2_tail pattern3_tail by blast
  then obtain t where "suffix t s"
    "rx_match (Grp (Cat (lit_i ''ORD'') (Cat (Opt (Cls sep_class)) (Plus py_isdigit)))) t \<noteq> []"
    using assms(2) foldr_cat_tail by blast
  then show ?thesis using grp_empty core_empty by blast
qed

lemma later_patterns_fail:
  assumes "re_search pattern1 m = None"
  shows "re_search pattern2 m = None \<and> re_search pattern3 m = None"
proof -
  have none: "rx_match pattern1 t = []" if "suffix t m" for t
    using assms that re_search_None by blast
  have "rx_match p t = []" if p: "p = pattern2 \<or> p = pattern3" and t: "suffix t m" for p t
  proof (rule ccontr)
    assume "rx_match p t \<noteq> []"
    then obtain u where "suffix u t" "rx_match pattern1 u \<noteq> []"
      using later_patterns_need_first [OF p] by blast
    then show False using none t suffix_order.trans by blast
  qed
  then show ?thesis using re_search_None by blast
qed

lemma extract_shape:
  assumes "extract_order_id_from_message m = Some oid"
  shows "\<exists>ds. oid = ''ORD'' @ ds \<and> ds \<noteq> [] \<and> list_all py_isdigit ds"
proof (cases "re_search pattern1 m")
  case None
  then have "extract_order_id_from_message m = None"
    using later_patterns_fail [OF None]
    by (simp add: extract_order_id_from_message_def patterns_def)
  then show ?thesis using assms by simp
next
  case (Some mt)
  obtain g0 g where mt: "mt = (g0, g)" by (cases mt)
  then obtain t r where "(r, g) \<in> set (rx_match pattern1 t)"
    using Some re_search_Some by blast
  then obtain ds where ds: "g = Some ds" "ds \<noteq> []" "list_all py_isdigit ds"
    using pattern1_group by blast
  have "oid = normalize_order_id ds"
    using assms Some mt ds(1)
    by (simp add: extract_order_id_from_message_def patterns_def matched_text_def)
  then show ?thesis using ds normalize_digits by blast
qed

text \<open>
  Claim C8. Whatever \<open>extract_order_id_from_message\<close> returns is \<open>ORD\<close> followed by
  a non-empty run of digits, and extracting from that identifier returns it again.
  When none of the three patterns occurs in the message the result is \<open>None\<close>; it is
  \<open>None\<close> exactly when the first pattern does not occur, because the other two end in
  an occurrence of the first.
\<close>

theorem extract_idempotent:
  "(extract_order_id_from_message m = Some oid \<longrightarrow>
      extract_order_id_from_message oid = Some oid \<and>
      (\<exists>ds. oid = ''ORD'' @ ds \<and> ds \<noteq> [] \<and> list_all py_isdigit ds))
   \<and> (re_search pattern1 m = None \<and> re_search pattern2 m = None \<and> re_search pattern3 m = None
        \<longrightarrow> extract_order_id_from_message m = None)
   \<and> (extract_order_id_from_message m = None) = (re_search pattern1 m = None)"
proof -
  have a: "extract_order_id_from_message oid = Some oid \<and>
      (\<exists>ds. oid = ''ORD'' @ ds \<and> ds \<noteq> [] \<and> list_all py_isdigit ds)"
    if "extract_order_id_from_message m = Some oid"
    using extract_shape [OF that] extract_normal by blast
  have b: "extract_order_id_from_message m = None" if "re_search pattern1 m = None"
    using later_patterns_fail [OF that] that
    by (simp add: extract_order_id_from_message_def patterns_def)
  have c: "re_search pattern1 m = None" if "extract_order_id_from_message m = None"
    using that by (simp add: extract_order_id_from_message_def patterns_def split: option.splits)
  show ?thesis using a b c by blast
qed

lemmas regex_eval =
  extract_order_id_from_message_def patterns_def pattern1_def pattern2_def pattern3_def
  chr_i_def lower_char_def lower_table_def upper_letters_def lower_letters_def sep_class_def
  py_isspace_def py_isdigit_def matched_text_def normalize_order_id_def remove_char_def
  py_upper_def upper_char_def upper_table_def

lemma extract_sample: "extract_order_id_from_message ''My order is ord-201'' = Some ''ORD201''"
  by (simp add: regex_eval)

lemma extract_hello:
  "re_search pattern1 ''hello'' = None" "re_search pattern2 ''hello'' = None"
  "re_search pattern3 ''hello'' = None"
  by (simp_all add: regex_eval)

theorem extract_idempotent_witness:
  "extract_order_id_from_message ''My order is ord-201'' = Some ''ORD201''
   \<and> extract_order_id_from_message ''ORD201'' = Some ''ORD201''
   \<and> extract_order_id_from_message ''hello'' = None"
proof -
  have a: "extract_order_id_from_message ''My order is ord-201'' = Some ''ORD201''"
    by (rule extract_sample)
  have "extract_order_id_from_message ''ORD201'' = Some ''ORD201''"
    using extract_idempotent [of "''My order is ord-201''" "''ORD201''"] a by blast
  moreover have "extract_order_id_from_message ''hello'' = None"
    using extract_idempotent [of "''hello''" "[]"] extract_hello by blast
  ultimately show ?thesis using a by blast
qed

text \<open>The separator of the first pattern may be any white space, here a no-break space.\<close>

lemma extract_no_break_space:
  "extract_order_id_from_message (''ORD'' @ [CHR 0xA0] @ ''201'') = Some ''ORD201''"
  by (simp add: regex_eval)

section \<open>The order-bearing first message\<close>

lemma process_message_str:
  "process_message e w (PStr msg) sid0 = pipeline e w msg (resolve_session_id e sid0)"
  by (simp add: process_message_def process_message_try_def Let_def split: prod.splits)

lemma extract_None_iff:
  "(extract_order_id_from_message m = None) = (re_search pattern1 m = None)"
proof
  assume "extract_order_id_from_message m = None"
  then show "re_search pattern1 m = None"
    by (simp add: extract_order_id_from_message_def patterns_def split: option.splits)
next
  assume n: "re_search pattern1 m = None"
  then show "extract_order_id_from_message m = None"
    using later_patterns_fail [OF n]
    by (simp add: extract_order_id_from_message_def patterns_def)
qed

lemma space_not_o: "py_isspace c \<Longrightarrow> lower_char c \<noteq> lower_char CHR ''O''"
proof -
  have "\<forall>c \<in> set [CHR 0x09, CHR 0x0A, CHR 0x0B, CHR 0x0C, CHR 0x0D, CHR 0x1C, CHR 0x1D,
                     CHR 0x1E, CHR 0x1F, CHR '' '', CHR 0x85, CHR 0xA0].
          lower_char c \<noteq> lower_char CHR ''O''"
    by (simp add: lower_char_def lower_table_def upper_letters_def lower_letters_def)
  then show "py_isspace c \<Longrightarrow> lower_char c \<noteq> lower_char CHR ''O''"
    unfolding py_isspace_def by blast
qed

lemma pattern1_starts:
  assumes "rx_match pattern1 t \<noteq> []"
  shows "\<exists>c cs. t = c # cs \<and> \<not> py_isspace c"
proof -
  have "rx_match (chr_i CHR ''O'') t \<noteq> []"
    using assms unfolding pattern1_def lit_i.simps cat_empty by auto
  then obtain c cs where "t = c # cs" "lower_char c = lower_char CHR ''O''"
    by (cases t) (auto simp: chr_i_def split: if_splits)
  then show ?thesis using space_not_o by blast
qed

lemma strip_nonempty:
  assumes "c \<in> set m" and "\<not> py_isspace c"
  shows "py_strip m \<noteq> []"
proof -
  let ?xs = "dropWhile py_isspace m"
  have ne: "?xs \<noteq> []" using assms by (auto simp: dropWhile_eq_Nil_conv)
  then have "\<not> py_isspace (hd ?xs)" by (rule hd_dropWhile)
  moreover have "hd ?xs \<in> set (rev ?xs)" using ne by simp
  ultimately have "dropWhile py_isspace (rev ?xs) \<noteq> []"
    by (auto simp: dropWhile_eq_Nil_conv simp del: set_rev)
  then show ?thesis by (simp add: py_strip_def)
qed

lemma extract_nonspace:
  assumes "extract_order_id_from_message m = Some oid"
  shows "py_strip m \<noteq> []"
proof -
  have "re_search pattern1 m \<noteq> None" using assms extract_None_iff [of m] by auto
  then obtain t where t: "suffix t m" "rx_match pattern1 t \<noteq> []"
    using re_search_None [of pattern1 m] by auto
  then obtain c cs where c: "t = c # cs" "\<not> py_isspace c" using pattern1_starts by blast
  then have "c \<in> set m" using t(1) set_mono_suffix by fastforce
  then show ?thesis using c(2) strip_nonempty by blast
qed

lemma first_message_found:
  assumes fresh: "SESSION_STATE w sid = None"
    and ex: "extract_order_id_from_message msg = Some oid"
    and found: "get_order_by_id e oid = Some order"
  shows "session_get (SESSION_STATE (snd (pipeline e w msg sid))) sid ''reason_for_action'' =
           (if 10 < length msg \<and> \<not> suffix ''?'' (py_strip msg)
            then PStr (py_strip msg) else PNone)"
    and "truthy (session_get (store_after_capture e (SESSION_STATE w) sid msg) sid ''order_id'')"
    and "session_get (store_after_capture e (SESSION_STATE w) sid msg) sid ''reason_for_action'' =
           (if 10 < length msg \<and> \<not> suffix ''?'' (py_strip msg)
            then PStr (py_strip msg) else PNone)"
proof -
  let ?st2 = "add_to_conversation_history e (snd (get_session e (SESSION_STATE w) sid)) sid
                ''user'' msg"
  let ?st3 = "link_order e ?st2 sid msg"
  have wf: "SESSION_STATE w sid = None \<or> live (SESSION_STATE w) sid" using fresh by simp
  have l2: "live ?st2 sid" by (intro add_history_live get_session_live wf)
  have l3: "live ?st3 sid" using l2 by (rule link_order_live)
  have o: "truthy (session_get ?st3 sid ''order_id'')"
    and r: "session_get ?st3 sid ''reason_for_action'' = PNone"
    using link_order_found [OF l2 ex found]
      fresh_reason [of "SESSION_STATE w" sid e "''user''" msg] fresh by simp_all
  show "session_get (SESSION_STATE (snd (pipeline e w msg sid))) sid ''reason_for_action'' =
           (if 10 < length msg \<and> \<not> suffix ''?'' (py_strip msg)
            then PStr (py_strip msg) else PNone)"
    using first_message_reason [OF fresh, of e msg] o r by simp
  have l4: "live (capture_reason e ?st3 sid msg) sid" using l3 by (rule capture_reason_live)
  show "truthy (session_get (store_after_capture e (SESSION_STATE w) sid msg) sid ''order_id'')"
    unfolding store_after_capture_def
    using o by (simp add: capture_datetime_order [OF l4] capture_reason_order [OF l3])
  show "session_get (store_after_capture e (SESSION_STATE w) sid msg) sid ''reason_for_action'' =
           (if 10 < length msg \<and> \<not> suffix ''?'' (py_strip msg)
            then PStr (py_strip msg) else PNone)"
    unfolding store_after_capture_def
    using o r by (simp add: capture_datetime_order [OF l4] capture_reason_order [OF l3])
qed

lemma complete_with_reason:
  assumes "live st sid" and "truthy (session_get st sid ''order_id'')"
    and "truthy (session_get st sid ''reason_for_action'')"
  shows "complete (fst (check_missing_info_for_action e st sid ''initiate_refund''))"
    and "complete (fst (check_missing_info_for_action e st sid ''initiate_replacement''))"
  using assms
  by (auto elim!: liveE simp: check_missing_info_existing check_missing_def session_get_existing)

text \<open>
  Claim C10, as amended. Take a session id that the store does not know and a first
  message in which an order identifier is recognised that resolves to an order. If the
  message is longer than 10 characters and, stripped of surrounding white space, does
  not end in \<open>?\<close>, then after this one message the session's \<open>reason_for_action\<close> is
  the stripped message, and the slot check for a refund or a replacement is complete.
\<close>

theorem first_message_is_reason:
  assumes "SESSION_STATE w (resolve_session_id e sid0) = None"
    and "extract_order_id_from_message msg = Some oid"
    and "get_order_by_id e oid = Some order"
    and "10 < length msg" and "\<not> suffix ''?'' (py_strip msg)"
  shows "session_get (SESSION_STATE (snd (process_message e w (PStr msg) sid0)))
           (resolve_session_id e sid0) ''reason_for_action'' = PStr (py_strip msg)
       \<and> complete (fst (check_missing_info_for_action e
            (store_after_capture e (SESSION_STATE w) (resolve_session_id e sid0) msg)
            (resolve_session_id e sid0) ''initiate_refund''))
       \<and> complete (fst (check_missing_info_for_action e
            (store_after_capture e (SESSION_STATE w) (resolve_session_id e sid0) msg)
            (resolve_session_id e sid0) ''initiate_replacement''))"
proof -
  let ?sid = "resolve_session_id e sid0"
  let ?st = "store_after_capture e (SESSION_STATE w) ?sid msg"
  have wf: "SESSION_STATE w ?sid = None \<or> live (SESSION_STATE w) ?sid" using assms(1) by simp
  have live: "live ?st ?sid" using store_after_capture_live [OF wf] .
  have ne: "py_strip msg \<noteq> []" using assms(2) by (rule extract_nonspace)
  have o: "truthy (session_get ?st ?sid ''order_id'')"
    using first_message_found(2) [OF assms(1,2,3)] .
  have r: "truthy (session_get ?st ?sid ''reason_for_action'')"
    using first_message_found(3) [OF assms(1,2,3)] assms(4,5) ne by simp
  show ?thesis
    using first_message_found(1) [OF assms(1,2,3)] assms(4,5)
      complete_with_reason [OF live o r]
    by (simp add: process_message_str)
qed

lemma extract_first_message:
  "extract_order_id_from_message ''My order is ORD201'' = Some ''ORD201''"
  "extract_order_id_from_message ''Is ORD201 ok? '' = Some ''ORD201''"
  by (simp_all add: regex_eval)

lemma sample_order_found: "get_order_by_id sample_env ''ORD201'' = Some sample_order"
  by (simp add: get_order_by_id_def sample_env_def sample_order_def py_strip_def py_isspace_def
        py_upper_def upper_char_def upper_table_def upper_letters_def lower_letters_def
        dict_get_default_def)

lemma sample_session_id: "resolve_session_id sample_env None = ''session_0123456789ab''"
  by (simp add: resolve_session_id_def sample_env_def)

lemma sample_world_fresh: "SESSION_STATE sample_world sid = None"
  by (simp add: sample_world_def)

theorem first_message_is_reason_witness:
  "session_get (SESSION_STATE (snd (process_message sample_env sample_world
       (PStr ''My order is ORD201'') None)))
     ''session_0123456789ab'' ''reason_for_action'' = PStr ''My order is ORD201''"
proof -
  have l: "10 < length ''My order is ORD201''" by simp
  have s: "py_strip ''My order is ORD201'' = ''My order is ORD201''"
    by (simp add: py_strip_def py_isspace_def)
  have q: "\<not> suffix ''?'' (py_strip ''My order is ORD201'')"
    unfolding s by (simp add: suffix_to_prefix)
  have "session_get (SESSION_STATE (snd (process_message sample_env sample_world
            (PStr ''My order is ORD201'') None)))
          (resolve_session_id sample_env None) ''reason_for_action'' =
        PStr (py_strip ''My order is ORD201'')"
    using first_message_is_reason [OF sample_world_fresh extract_first_message(1)
        sample_order_found l q] by blast
  then show ?thesis unfolding s sample_session_id .
qed

text \<open>
  Claim C10 as stated fails on a first message whose question mark is followed by white
  space: the message names the order \<open>ORD201\<close>, is longer than 10 characters and does not
  end in \<open>?\<close>, yet \<open>message.strip().endswith("?")\<close> holds (line 67) and no reason is stored.
\<close>

theorem first_message_is_reason_counterexample:
  "SESSION_STATE sample_world (resolve_session_id sample_env None) = None
   \<and> extract_order_id_from_message ''Is ORD201 ok? '' = Some ''ORD201''
   \<and> get_order_by_id sample_env ''ORD201'' = Some sample_order
   \<and> 10 < length ''Is ORD201 ok? ''
   \<and> \<not> suffix ''?'' ''Is ORD201 ok? ''
   \<and> session_get (SESSION_STATE (snd (process_message sample_env sample_world
         (PStr ''Is ORD201 ok? '') None)))
       (resolve_session_id sample_env None) ''reason_for_action'' = PNone
   \<and> session_get (SESSION_STATE (snd (process_message sample_env sample_world
         (PStr ''Is ORD201 ok? '') None)))
       (resolve_session_id sample_env None) ''reason_for_action'' \<noteq> PStr ''Is ORD201 ok?''"
proof -
  have s: "py_strip ''Is ORD201 ok? '' = ''Is ORD201 ok?''"
    by (simp add: py_strip_def py_isspace_def)
  have q: "suffix ''?'' (py_strip ''Is ORD201 ok? '')"
    unfolding s by (simp add: suffix_to_prefix)
  have n: "\<not> suffix ''?'' ''Is ORD201 ok? ''" by (simp add: suffix_to_prefix)
  have r: "session_get (SESSION_STATE (snd (process_message sample_env sample_world
              (PStr ''Is ORD201 ok? '') None)))
            (resolve_session_id sample_env None) ''reason_for_action'' = PNone"
    unfolding process_message_str
    using first_message_found(1) [OF sample_world_fresh extract_first_message(2)
        sample_order_found, of "resolve_session_id sample_env None"] q
    by simp
  have l: "10 < length ''Is ORD201 ok? ''" by simp
  show ?thesis using sample_world_fresh extract_first_message(2) sample_order_found l n r
    by simp
qed

section \<open>The refund scenario\<close>

lemma link_order_keeps:
  assumes "live st sid" and "truthy (session_get st sid ''order_id'')"
  shows "truthy (session_get (link_order e st sid msg) sid ''order_id'')
       \<and> session_get (link_order e st sid msg) sid ''reason_for_action'' =
           session_get st sid ''reason_for_action''"
proof (cases "extract_order_id_from_message msg")
  case None
  then show ?thesis using assms(2) by (simp add: link_order_def)
next
  case ex: (Some oid)
  show ?thesis
  proof (cases "get_order_by_id e oid")
    case None
    then show ?thesis using ex assms(2) by (simp add: link_order_def)
  next
    case (Some order)
    show ?thesis using link_order_found [OF assms(1) ex Some] .
  qed
qed

lemma arriving_capture:
  assumes live: "live st sid" and o: "truthy (session_get st sid ''order_id'')"
  shows "truthy (session_get (store_after_capture e st sid msg) sid ''order_id'')"
    and "session_get (store_after_capture e st sid msg) sid ''reason_for_action'' =
           (if \<not> truthy (session_get st sid ''reason_for_action'') \<and> 10 < length msg \<and>
               \<not> suffix ''?'' (py_strip msg)
            then PStr (py_strip msg) else session_get st sid ''reason_for_action'')"
proof -
  let ?st2 = "add_to_conversation_history e (snd (get_session e st sid)) sid ''user'' msg"
  let ?st3 = "link_order e ?st2 sid msg"
  have g: "snd (get_session e st sid) = st"
    using live by (elim liveE) (simp add: get_session_existing)
  have l2: "live ?st2 sid" unfolding g using live by (rule add_history_live)
  have s2: "session_get ?st2 sid k = session_get st sid k" for k
    unfolding g using live by (elim liveE) (simp add: session_get_add_history)
  have l3: "live ?st3 sid" using l2 by (rule link_order_live)
  have o3: "truthy (session_get ?st3 sid ''order_id'')"
    and r3: "session_get ?st3 sid ''reason_for_action'' = session_get st sid ''reason_for_action''"
    using link_order_keeps [OF l2, of e msg] o by (simp_all add: s2)
  have l4: "live (capture_reason e ?st3 sid msg) sid" using l3 by (rule capture_reason_live)
  show "truthy (session_get (store_after_capture e st sid msg) sid ''order_id'')"
    unfolding store_after_capture_def
    using o3 by (simp add: capture_datetime_order [OF l4] capture_reason_order [OF l3])
  show "session_get (store_after_capture e st sid msg) sid ''reason_for_action'' =
           (if \<not> truthy (session_get st sid ''reason_for_action'') \<and> 10 < length msg \<and>
               \<not> suffix ''?'' (py_strip msg)
            then PStr (py_strip msg) else session_get st sid ''reason_for_action'')"
    unfolding store_after_capture_def
    using o3 r3 by (simp add: capture_datetime_order [OF l4] capture_reason_order [OF l3])
qed

lemma run_action_complete:
  assumes t: "t \<in> set action_types"
    and c: "complete (fst (check_missing_info_for_action e (SESSION_STATE w) sid t))"
  shows "\<exists>r a w'. run_action e w sid t v = (r, t, Some a, w') \<and>
           agent_calls w' = agent_calls w @ [Execute_action]"
proof -
  have n: "t \<noteq> ''none''" using t by (auto simp: action_types_def)
  obtain info st1 where i: "check_missing_info_for_action e (SESSION_STATE w) sid t = (info, st1)"
    by (cases "check_missing_info_for_action e (SESSION_STATE w) sid t")
  let ?ud = "Some (user_details_of (session_ref st1 sid))"
  let ?aid = "generate_action_id e (ledger w) t"
  obtain ok lg1 where s:
    "save_action_data e (ledger w) t (action_data_of e t ?aid ?ud) = (ok, lg1)"
    by (cases "save_action_data e (ledger w) t (action_data_of e t ?aid ?ud)")
  have x: "execute_action e (ledger w) t ?ud =
      (Some (Logged t ?aid (if ok then ''success'' else ''partial'')
               (''Action '' @ [CHR 0x27] @ t @ [CHR 0x27] @ '' has been logged with ID: '' @ ?aid)
               (action_data_of e t ?aid ?ud)), lg1)"
    using s by (simp add: execute_action_known [OF t])
  show ?thesis
    using n i c x by (cases ok) (simp_all add: run_action_def Let_def)
qed

lemma pipeline_complete:
  assumes wf: "SESSION_STATE w sid = None \<or> live (SESSION_STATE w) sid"
    and t: "resolved_action e msg \<in> set action_types"
    and c: "complete (fst (check_missing_info_for_action e
                 (store_after_capture e (SESSION_STATE w) sid msg) sid (resolved_action e msg)))"
  shows "action (fst (pipeline e w msg sid)) = resolved_action e msg
       \<and> action_log (fst (pipeline e w msg sid)) \<noteq> None
       \<and> Execute_action \<in> set (drop (length (agent_calls w))
                                   (agent_calls (snd (pipeline e w msg sid))))"
proof -
  let ?wb = "world_before_action e w msg sid"
  have st: "SESSION_STATE ?wb = store_after_capture e (SESSION_STATE w) sid msg"
    using world_before_action_store [OF wf] .
  have c': "complete (fst (check_missing_info_for_action e (SESSION_STATE ?wb) sid
                 (resolved_action e msg)))"
    using c st by simp
  obtain r a w' where run:
    "run_action e ?wb sid (resolved_action e msg) (fst (response_before_action e w msg sid)) =
       (r, resolved_action e msg, Some a, w')"
    "agent_calls w' = agent_calls ?wb @ [Execute_action]"
    using run_action_complete [OF t c'] by blast
  have p: "prefix (agent_calls w) (agent_calls ?wb)"
    by (simp add: world_before_action_def)
  then obtain zs where zs: "agent_calls ?wb = agent_calls w @ zs" by (auto simp: prefix_def)
  show ?thesis
    unfolding pipeline_stages run using run(2) zs by simp
qed

lemma refund_with_reason:
  assumes "live st sid" and "truthy (session_get st sid ''order_id'')"
    and "truthy (session_get st sid ''reason_for_action'')"
  shows "complete (fst (check_missing_info_for_action e st sid ''initiate_refund''))"
  using assms
  by (auto elim!: liveE simp: check_missing_info_existing check_missing_def session_get_existing)

text \<open>
  Claim C3, as amended. Whenever the request resolves to an action other than \<open>none\<close>
  and the slot-fill check on the session (as it stands after order linkage and slot
  capture) reports incomplete information, the answer is the check's prompt, the
  returned action is \<open>none\<close>, there is no action log, the ledgers are untouched,
  \<open>execute_action\<close> is not called and the session's \<open>action_id\<close> stays as it was.
  In particular, let \<open>order_id\<close> be set and \<open>reason_for_action\<close> be empty in the session
  when the message arrives, and let the request resolve to \<open>initiate_refund\<close>. If the
  message is not itself taken as the reason, the answer is exactly the refund-reason
  prompt, the action is \<open>none\<close> and nothing is recorded. If it is, that is if it is
  longer than 10 characters, does not end in \<open>?\<close> once stripped and is not blank, then
  the slot check is complete and the refund is executed by the same request.
\<close>

theorem incomplete_action_prompts:
  assumes "SESSION_STATE w sid = None \<or> live (SESSION_STATE w) sid"
  shows "(resolved_action e msg \<noteq> ''none'' \<and>
          \<not> complete (fst (check_missing_info_for_action e
                 (store_after_capture e (SESSION_STATE w) sid msg) sid (resolved_action e msg)))
          \<longrightarrow>
            answer (fst (pipeline e w msg sid)) =
              prompt (fst (check_missing_info_for_action e
                 (store_after_capture e (SESSION_STATE w) sid msg) sid (resolved_action e msg)))
            \<and> action (fst (pipeline e w msg sid)) = ''none''
            \<and> action_log (fst (pipeline e w msg sid)) = None
            \<and> ledger (snd (pipeline e w msg sid)) = ledger w
            \<and> Execute_action \<notin> set (drop (length (agent_calls w))
                                        (agent_calls (snd (pipeline e w msg sid))))
            \<and> session_get (SESSION_STATE (snd (pipeline e w msg sid))) sid ''action_id'' =
                session_get (store_after_capture e (SESSION_STATE w) sid msg) sid ''action_id'')
       \<and> (resolved_action e msg = ''initiate_refund'' \<and>
          truthy (session_get (SESSION_STATE w) sid ''order_id'') \<and>
          \<not> truthy (session_get (SESSION_STATE w) sid ''reason_for_action'')
          \<longrightarrow>
            (if 10 < length msg \<and> \<not> suffix ''?'' (py_strip msg) \<and> py_strip msg \<noteq> []
             then action (fst (pipeline e w msg sid)) = ''initiate_refund''
                \<and> action_log (fst (pipeline e w msg sid)) \<noteq> None
                \<and> Execute_action \<in> set (drop (length (agent_calls w))
                                            (agent_calls (snd (pipeline e w msg sid))))
             else answer (fst (pipeline e w msg sid)) = refund_reason_prompt
                \<and> action (fst (pipeline e w msg sid)) = ''none''
                \<and> action_log (fst (pipeline e w msg sid)) = None
                \<and> ledger (snd (pipeline e w msg sid)) = ledger w))"
proof -
  let ?st = "store_after_capture e (SESSION_STATE w) sid msg"
  have live: "live ?st sid" using store_after_capture_live [OF assms] .
  have general: "answer (fst (pipeline e w msg sid)) =
              prompt (fst (check_missing_info_for_action e ?st sid (resolved_action e msg)))
            \<and> action (fst (pipeline e w msg sid)) = ''none''
            \<and> action_log (fst (pipeline e w msg sid)) = None
            \<and> ledger (snd (pipeline e w msg sid)) = ledger w
            \<and> Execute_action \<notin> set (drop (length (agent_calls w))
                                        (agent_calls (snd (pipeline e w msg sid))))
            \<and> session_get (SESSION_STATE (snd (pipeline e w msg sid))) sid ''action_id'' =
                session_get ?st sid ''action_id''"
    if act: "resolved_action e msg \<noteq> ''none''"
      and inc: "\<not> complete (fst (check_missing_info_for_action e ?st sid (resolved_action e msg)))"
  proof -
    have hist: "session_get (add_to_conversation_history e ?st sid r m) sid k =
                session_get ?st sid k" for r m k
      using live by (elim liveE) (simp add: session_get_add_history)
    show ?thesis
      unfolding pipeline_incomplete [OF assms act inc]
      using no_execute_before_action [of w e msg sid]
      by (simp add: world_before_action_ledger hist)
  qed
  have scenario:
    "if 10 < length msg \<and> \<not> suffix ''?'' (py_strip msg) \<and> py_strip msg \<noteq> []
     then action (fst (pipeline e w msg sid)) = ''initiate_refund''
        \<and> action_log (fst (pipeline e w msg sid)) \<noteq> None
        \<and> Execute_action \<in> set (drop (length (agent_calls w))
                                    (agent_calls (snd (pipeline e w msg sid))))
     else answer (fst (pipeline e w msg sid)) = refund_reason_prompt
        \<and> action (fst (pipeline e w msg sid)) = ''none''
        \<and> action_log (fst (pipeline e w msg sid)) = None
        \<and> ledger (snd (pipeline e w msg sid)) = ledger w"
    if act: "resolved_action e msg = ''initiate_refund''"
      and o: "truthy (session_get (SESSION_STATE w) sid ''order_id'')"
      and r: "\<not> truthy (session_get (SESSION_STATE w) sid ''reason_for_action'')"
  proof -
    have l0: "live (SESSION_STATE w) sid"
    proof (cases "SESSION_STATE w sid")
      case None
      then show ?thesis using o by (simp add: session_get_def session_ref_def dict_get_def)
    next
      case (Some s)
      then show ?thesis using assms by simp
    qed
    have o5: "truthy (session_get ?st sid ''order_id'')"
      using arriving_capture(1) [OF l0 o] .
    have r5: "session_get ?st sid ''reason_for_action'' =
           (if 10 < length msg \<and> \<not> suffix ''?'' (py_strip msg)
            then PStr (py_strip msg) else session_get (SESSION_STATE w) sid ''reason_for_action'')"
      using arriving_capture(2) [OF l0 o, of e msg] r by simp
    show ?thesis
    proof (cases "10 < length msg \<and> \<not> suffix ''?'' (py_strip msg) \<and> py_strip msg \<noteq> []")
      case True
      then have "truthy (session_get ?st sid ''reason_for_action'')" using r5 by simp
      then have c: "complete (fst (check_missing_info_for_action e ?st sid
                      (resolved_action e msg)))"
        unfolding act using refund_with_reason [OF live o5] by blast
      have t: "resolved_action e msg \<in> set action_types"
        unfolding act by (simp add: action_types_def)
      show ?thesis using pipeline_complete [OF assms t c] True act by simp
    next
      case False
      then have nr: "\<not> truthy (session_get ?st sid ''reason_for_action'')"
        using r5 r by auto
      have inc: "\<not> complete (fst (check_missing_info_for_action e ?st sid
                      (resolved_action e msg)))"
        and p: "prompt (fst (check_missing_info_for_action e ?st sid (resolved_action e msg))) =
                  refund_reason_prompt"
        unfolding act using live o5 nr by (elim liveE, simp add: refund_without_reason)+
      have "resolved_action e msg \<noteq> ''none''" using act by simp
      then show ?thesis using general [OF _ inc] p False by simp
    qed
  qed
  show ?thesis
    using general scenario by blast
qed

lemma refund_classified: "resolved_action sample_env m = ''initiate_refund''"
proof -
  have "py_lower (py_strip ''Refund'') = ''refund''"
    by (simp add: py_lower_def py_strip_def py_isspace_def lower_char_def lower_table_def
          upper_letters_def lower_letters_def)
  then show ?thesis
    by (simp add: resolved_action_def action_agent_def intent_agent_def sample_env_def
          intent_to_action_def valid_intents_def)
qed

lemma linked_world_session:
  "SESSION_STATE linked_world ''s1'' = None \<or> live (SESSION_STATE linked_world) ''s1''"
  "truthy (session_get (SESSION_STATE linked_world) ''s1'' ''order_id'')"
  "\<not> truthy (session_get (SESSION_STATE linked_world) ''s1'' ''reason_for_action'')"
  "ledger linked_world = empty_ledgers" "agent_calls linked_world = []"
  by (simp_all add: linked_world_def linked_store_def live_def linked_session_def session_get_def
        session_ref_def dict_get_def)

lemma sample_messages:
  "py_strip ''refund?'' = ''refund?''" "py_strip ''I want a refund now'' = ''I want a refund now''"
  by (simp_all add: py_strip_def py_isspace_def)

theorem incomplete_action_prompts_witness:
  "answer (fst (pipeline sample_env linked_world ''refund?'' ''s1'')) = refund_reason_prompt
   \<and> action (fst (pipeline sample_env linked_world ''refund?'' ''s1'')) = ''none''
   \<and> action_log (fst (pipeline sample_env linked_world ''refund?'' ''s1'')) = None
   \<and> ledger (snd (pipeline sample_env linked_world ''refund?'' ''s1'')) = empty_ledgers
   \<and> action (fst (pipeline sample_env linked_world ''I want a refund now'' ''s1'')) =
       ''initiate_refund''
   \<and> Execute_action \<in>
       set (agent_calls (snd (pipeline sample_env linked_world ''I want a refund now'' ''s1'')))"
proof -
  have a: "\<not> (10 < length ''refund?'' \<and> \<not> suffix ''?'' (py_strip ''refund?'') \<and>
               py_strip ''refund?'' \<noteq> [])"
    by simp
  have b: "10 < length ''I want a refund now'' \<and>
           \<not> suffix ''?'' (py_strip ''I want a refund now'') \<and>
           py_strip ''I want a refund now'' \<noteq> []"
    unfolding sample_messages by (simp add: suffix_to_prefix)
  have "answer (fst (pipeline sample_env linked_world ''refund?'' ''s1'')) = refund_reason_prompt
      \<and> action (fst (pipeline sample_env linked_world ''refund?'' ''s1'')) = ''none''
      \<and> action_log (fst (pipeline sample_env linked_world ''refund?'' ''s1'')) = None
      \<and> ledger (snd (pipeline sample_env linked_world ''refund?'' ''s1'')) = ledger linked_world"
    using incomplete_action_prompts [OF linked_world_session(1), of sample_env "''refund?''"]
      refund_classified linked_world_session(2,3) a
    by presburger
  moreover have "action (fst (pipeline sample_env linked_world ''I want a refund now'' ''s1'')) =
         ''initiate_refund''
      \<and> Execute_action \<in> set (drop (length (agent_calls linked_world))
           (agent_calls (snd (pipeline sample_env linked_world ''I want a refund now'' ''s1''))))"
    using incomplete_action_prompts [OF linked_world_session(1), of sample_env
        "''I want a refund now''"]
      refund_classified linked_world_session(2,3) b
    by presburger
  ultimately show ?thesis by (simp add: linked_world_session(4,5))
qed

lemma refund_now_extract: "extract_order_id_from_message ''I want a refund now'' = None"
  by (simp add: regex_eval)

lemma refund_now_store:
  "store_after_capture sample_env linked_store ''s1'' ''I want a refund now'' =
     [''s1'' \<mapsto> \<lparr>slots = [(''order_id'', PStr ''ORD201''), (''customer_name'', PStr ''Asha''),
                            (''product_name'', PStr ''Mixer''),
                            (''reason_for_action'', PStr ''I want a refund now''),
                            (''preferred_datetime'', PNone)],
                   conversation_history =
                     [\<lparr>role = ''user'', message = ''I want a refund now'',
                       timestamp = iso_now sample_env\<rparr>]\<rparr>]"
  by (simp add: store_after_capture_def linked_store_def get_session_def
        add_to_conversation_history_def link_order_def refund_now_extract capture_reason_def
        capture_datetime_def update_session_def session_get_def session_ref_def
        linked_session_def dict_get_def dict_set_def sample_messages suffix_to_prefix
        datetime_keywords_def py_lower_def lower_char_def lower_table_def upper_letters_def
        lower_letters_def sublist_Cons_right)

lemma refund_now_run:
  "fst (run_action sample_env
          (world_before_action sample_env linked_world ''I want a refund now'' ''s1'')
          ''s1'' ''initiate_refund'' v) = processed_text ''refund'' ''REF-20251224-0001''"
  "fst (snd (run_action sample_env
          (world_before_action sample_env linked_world ''I want a refund now'' ''s1'')
          ''s1'' ''initiate_refund'' v)) = ''initiate_refund''"
  "refunds_json (ledger (snd (snd (snd (run_action sample_env
      (world_before_action sample_env linked_world ''I want a refund now'' ''s1'')
      ''s1'' ''initiate_refund'' v))))) =
     Records [ [(''id'', PStr ''REF-20251224-0001''), (''refund_id'', PStr ''REF-20251224-0001''),
             (''product_name'', PStr ''Mixer''), (''user_email'', PNone),
             (''user_name'', PStr ''Asha''), (''date'', PStr ''2025-12-24 10:00:00''),
             (''status'', PStr ''processing'')] ]"
proof -
  have st: "SESSION_STATE (world_before_action sample_env linked_world ''I want a refund now''
              ''s1'') = store_after_capture sample_env linked_store ''s1'' ''I want a refund now''"
    using world_before_action_store [OF linked_world_session(1)]
    by (simp add: linked_world_def)
  have lg: "ledger (world_before_action sample_env linked_world ''I want a refund now'' ''s1'') =
              empty_ledgers"
    by (simp add: world_before_action_ledger linked_world_def)
  have f: "fmt_04d (Suc 0) = ''0001''"
    by (simp add: fmt_04d_def dec.simps digit_char_def eval_nat_numeral)
  note defs = check_missing_info_for_action_def get_session_def check_missing_def
          dict_get_def Let_def user_details_of_def session_ref_def execute_action_def
          generate_action_id_def next_action_id_def empty_ledgers_def sample_env_def f
          refund_data_def details_get_def dict_get_default_def save_action_data_def
          append_record_def action_label_def action_labels_def
  show "fst (run_action sample_env
          (world_before_action sample_env linked_world ''I want a refund now'' ''s1'')
          ''s1'' ''initiate_refund'' v) = processed_text ''refund'' ''REF-20251224-0001''"
    unfolding run_action_def st lg refund_now_store by (simp add: defs)
  show "fst (snd (run_action sample_env
          (world_before_action sample_env linked_world ''I want a refund now'' ''s1'')
          ''s1'' ''initiate_refund'' v)) = ''initiate_refund''"
    unfolding run_action_def st lg refund_now_store by (simp add: defs)
  show "refunds_json (ledger (snd (snd (snd (run_action sample_env
      (world_before_action sample_env linked_world ''I want a refund now'' ''s1'')
      ''s1'' ''initiate_refund'' v))))) =
     Records [ [(''id'', PStr ''REF-20251224-0001''), (''refund_id'', PStr ''REF-20251224-0001''),
             (''product_name'', PStr ''Mixer''), (''user_email'', PNone),
             (''user_name'', PStr ''Asha''), (''date'', PStr ''2025-12-24 10:00:00''),
             (''status'', PStr ''processing'')] ]"
    unfolding run_action_def st lg refund_now_store by (simp add: defs)
qed

text \<open>
  Claim C3 as stated fails in its scenario. The session \<open>s1\<close> has its \<open>order_id\<close> set
  and no \<open>reason_for_action\<close>, and the message \<open>I want a refund now\<close> resolves to
  \<open>initiate_refund\<close>. The message is stored as the reason (lines 65 to 68) before the
  slot check of line 165, which is therefore complete: the refund is executed and
  recorded, and the answer is the confirmation with the request id, not the
  refund-reason prompt.
\<close>

theorem incomplete_action_prompts_counterexample:
  "truthy (session_get (SESSION_STATE linked_world) ''s1'' ''order_id'')
   \<and> \<not> truthy (session_get (SESSION_STATE linked_world) ''s1'' ''reason_for_action'')
   \<and> resolved_action sample_env ''I want a refund now'' = ''initiate_refund''
   \<and> answer (fst (pipeline sample_env linked_world ''I want a refund now'' ''s1'')) =
       processed_text ''refund'' ''REF-20251224-0001''
   \<and> answer (fst (pipeline sample_env linked_world ''I want a refund now'' ''s1'')) \<noteq>
       refund_reason_prompt
   \<and> action (fst (pipeline sample_env linked_world ''I want a refund now'' ''s1'')) =
       ''initiate_refund''
   \<and> map (\<lambda>r. dict_get r ''id'')
       (records_of (refunds_json (ledger (snd (pipeline sample_env linked_world
          ''I want a refund now'' ''s1''))))) = [PStr ''REF-20251224-0001'']"
proof -
  let ?run = "run_action sample_env
      (world_before_action sample_env linked_world ''I want a refund now'' ''s1'')
      ''s1'' ''initiate_refund''
      (fst (response_before_action sample_env linked_world ''I want a refund now'' ''s1''))"
  obtain a b c w7 where r: "?run = (a, b, c, w7)" by (cases ?run) auto
  have v: "a = processed_text ''refund'' ''REF-20251224-0001''" "b = ''initiate_refund''"
    "refunds_json (ledger w7) =
       Records [ [(''id'', PStr ''REF-20251224-0001''), (''refund_id'', PStr ''REF-20251224-0001''),
             (''product_name'', PStr ''Mixer''), (''user_email'', PNone),
             (''user_name'', PStr ''Asha''), (''date'', PStr ''2025-12-24 10:00:00''),
             (''status'', PStr ''processing'')] ]"
    using refund_now_run [of "fst (response_before_action sample_env linked_world
        ''I want a refund now'' ''s1'')"] r by simp_all
  have p: "processed_text ''refund'' ''REF-20251224-0001'' \<noteq> refund_reason_prompt"
    by (simp add: processed_text_def refund_reason_prompt_def)
  show ?thesis
    unfolding pipeline_stages refund_classified r
    using v p by (simp add: linked_world_session(2,3) records_of_def dict_get_def)
qed

end
